theory Spec2Isabelle
  imports Main "HOL-Library.Word"
begin

section \<open>Go values, panics and errors\<close>

text \<open>
  The embedding follows \<^verbatim>\<open>connection.go\<close>. A Go function that can panic returns an
  \<open>outcome\<close>: \<open>Panic\<close> for a run-time panic (a nil pointer dereference, an index out of
  range), \<open>Ret\<close> for a normal return. Go's \<^verbatim>\<open>int64\<close> and \<^verbatim>\<open>uint64\<close> are 64-bit words
  (\<open>+\<close> wraps, \<open>sint\<close> reads an \<^verbatim>\<open>int64\<close>); Go's \<^verbatim>\<open>int\<close> only ever holds the result of
  \<^verbatim>\<open>strconv.Atoi\<close>, a constant or a list position here and is an \<open>int\<close>.
\<close>

datatype panic = NilPointerDereference | IndexOutOfRange

datatype 'a outcome = Panic panic | Ret 'a

type_synonym int64 = "64 word"
type_synonym uint64 = "64 word"

text \<open>
  A \<^verbatim>\<open>float64\<close> is kept as its 64 bits: only \<^verbatim>\<open>strconv.FormatFloat\<close>, a parameter of the
  embedding, reads it.
\<close>

type_synonym float64 = "64 word"

text \<open>
  An \<^verbatim>\<open>interface{}\<close>: a value stored in a \<^verbatim>\<open>context.Context\<close>, a session parameter's
  value, a \<^verbatim>\<open>driver.Value\<close> to bind or its encoding. \<open>IOther\<close> is a value of any other
  dynamic type (a nil interface among them).
\<close>

datatype iface =
    IInt64 int64 | IFloat64 float64 | IBool bool | IString string | IInt int
  | IBytes "8 word list" | IInts "int list" | IStrings "string list" | IOther

datatype paramKey = MultiStatementCount | AsyncMode | QueryIDChan | ResumeQueryID | IsInternal

type_synonym go_context = "paramKey \<Rightarrow> iface option"

text \<open>\<^verbatim>\<open>context.TODO()\<close> holds no value.\<close>

definition TODO :: go_context where
  "TODO = (\<lambda>k. None)"

datatype num_err = ErrSyntax | ErrRange

record SnowflakeError =
  Number :: int
  errSQLState :: string
  errMessage :: string
  errQueryID :: string

text \<open>
  The errors that cross the functions of the file: \<^verbatim>\<open>driver.ErrBadConn\<close>, a
  \<^verbatim>\<open>*SnowflakeError\<close>, a \<^verbatim>\<open>*strconv.NumError\<close> (function, input, kind), the
  \<^verbatim>\<open>fmt.Errorf("failed to cast val ...")\<close> of \<^verbatim>\<open>isInternal\<close>/\<^verbatim>\<open>isAsyncMode\<close>, and the errors
  of the collaborators that are not in the file (transport, JSON, bind conversion),
  kept by their text.
\<close>

datatype go_error =
    ErrBadConn
  | SnowflakeErr SnowflakeError
  | NumError string string num_err
  | CastError iface
  | ExternalError string

section \<open>strconv and strings\<close>

text \<open>
  \<^verbatim>\<open>strconv.ParseUint(s, 10, 64)\<close>: only the digits 0 to 9 are accepted in base 10; the
  loop fails with a range error as soon as the value leaves 64 bits.
\<close>

definition digit_val :: "char \<Rightarrow> nat option" where
  "digit_val c = (let n = (of_char c :: nat) in if 48 \<le> n \<and> n \<le> 57 then Some (n - 48) else None)"

fun ParseUint_loop :: "nat \<Rightarrow> string \<Rightarrow> num_err + nat" where
  "ParseUint_loop n [] = Inr n"
| "ParseUint_loop n (c # cs) =
     (case digit_val c of
        None \<Rightarrow> Inl ErrSyntax
      | Some d \<Rightarrow>
          if n \<ge> (2 ^ 64 - 1) div 10 + 1 then Inl ErrRange
          else if n * 10 + d > 2 ^ 64 - 1 then Inl ErrRange
          else ParseUint_loop (n * 10 + d) cs)"

definition ParseUint :: "string \<Rightarrow> num_err + nat" where
  "ParseUint s = (if s = [] then Inl ErrSyntax else ParseUint_loop 0 s)"

text \<open>
  The signed parse shared by \<^verbatim>\<open>strconv.ParseInt(s, 10, 64)\<close> and \<^verbatim>\<open>strconv.Atoi\<close> (an
  \<^verbatim>\<open>int\<close> has 64 bits): an optional sign, then \<^verbatim>\<open>ParseUint\<close>, then the range check
  against \<open>2 ^ 63\<close>. \<open>fn\<close> is the function name the error carries.
\<close>

definition parse_signed :: "string \<Rightarrow> string \<Rightarrow> go_error + int" where
  "parse_signed fn s =
     (if s = [] then Inl (NumError fn s ErrSyntax)
      else
        let neg = (hd s = CHR ''-'');
            s1 = (if hd s = CHR ''+'' \<or> hd s = CHR ''-'' then tl s else s)
        in case ParseUint s1 of
             Inl ErrSyntax \<Rightarrow> Inl (NumError fn s ErrSyntax)
           | Inl ErrRange \<Rightarrow> Inl (NumError fn s ErrRange)
           | Inr un \<Rightarrow>
               if \<not> neg \<and> un \<ge> 2 ^ 63 then Inl (NumError fn s ErrRange)
               else if neg \<and> un > 2 ^ 63 then Inl (NumError fn s ErrRange)
               else Inr (if neg then - int un else int un))"

definition Atoi :: "string \<Rightarrow> go_error + int" where
  "Atoi s = parse_signed ''Atoi'' s"

definition ParseInt :: "string \<Rightarrow> go_error + int64" where
  "ParseInt s = (case parse_signed ''ParseInt'' s of Inl e \<Rightarrow> Inl e | Inr i \<Rightarrow> Inr (word_of_int i))"

text \<open>\<^verbatim>\<open>strconv.Itoa\<close>, \<^verbatim>\<open>strconv.FormatInt(v, 10)\<close> and \<^verbatim>\<open>strconv.FormatBool\<close>.\<close>

definition digit_char :: "nat \<Rightarrow> char" where
  "digit_char d = ''0123456789'' ! d"

fun digits10 :: "nat \<Rightarrow> string" where
  "digits10 n = (if n < 10 then [digit_char n] else digits10 (n div 10) @ [digit_char (n mod 10)])"

declare digits10.simps [simp del]

definition Itoa :: "int \<Rightarrow> string" where
  "Itoa i = (if i < 0 then CHR ''-'' # digits10 (nat (- i)) else digits10 (nat i))"

definition FormatInt :: "int64 \<Rightarrow> string" where
  "FormatInt v = Itoa (sint v)"

definition FormatBool :: "bool \<Rightarrow> string" where
  "FormatBool b = (if b then ''true'' else ''false'')"

text \<open>
  \<^verbatim>\<open>strings.ToLower\<close>: on a string of ASCII bytes, the upper-case letters are moved to
  lower case; any other string goes through the Unicode mapping, which is a parameter.
\<close>

definition isASCII :: "string \<Rightarrow> bool" where
  "isASCII s = list_all (\<lambda>c. (of_char c :: nat) < 128) s"

definition lower_byte :: "char \<Rightarrow> char" where
  "lower_byte c =
     (case map_of (zip ''ABCDEFGHIJKLMNOPQRSTUVWXYZ'' ''abcdefghijklmnopqrstuvwxyz'') c of
        None \<Rightarrow> c
      | Some l \<Rightarrow> l)"

definition ToLower :: "(string \<Rightarrow> string) \<Rightarrow> string \<Rightarrow> string" where
  "ToLower unicodeLower s = (if isASCII s then map lower_byte s else unicodeLower s)"

text \<open>\<^verbatim>\<open>strings.Split(s, sep)\<close> for a separator of one byte.\<close>

fun Split :: "string \<Rightarrow> char \<Rightarrow> string list" where
  "Split [] sep = [[]]"
| "Split (c # cs) sep =
     (if c = sep then [] # Split cs sep
      else (case Split cs sep of [] \<Rightarrow> [[c]] | x # xs \<Rightarrow> (c # x) # xs))"

section \<open>The wire data and the connection\<close>

text \<open>
  The structs are declared in files of the package that are not part of the sources at
  hand; the records hold the fields \<^verbatim>\<open>connection.go\<close> reads and writes. Where two structs
  share a field name, the later record's field carries a prefix.
\<close>

record execResponseRowType =
  Name :: string

record nameValueParameter =
  paramName :: string
  paramValue :: iface

text \<open>\<^verbatim>\<open>RowSet\<close> is a \<^verbatim>\<open>[][]*string\<close>: a cell is \<open>None\<close> for a nil pointer.\<close>

record execResponseData =
  StatementTypeID :: int64
  RowType :: "execResponseRowType list"
  RowSet :: "string option list list"
  respSQLState :: string
  respQueryID :: string
  FinalDatabaseName :: string
  FinalSchemaName :: string
  FinalRoleName :: string
  FinalWarehouseName :: string
  Parameters :: "nameValueParameter list"
  ResultIDs :: string
  ResultTypes :: string
  Chunks :: "string list"
  Total :: int64
  Qrmk :: string
  QueryResultFormat :: string
  ChunkHeaders :: "string \<rightharpoonup> string"
  RowSetBase64 :: string

record execResponse =
  Data :: execResponseData
  Message :: string
  Code :: string
  Success :: bool

record execBindParameter =
  Type :: string
  Value :: iface

record execRequest =
  SQLText :: string
  AsyncExec :: bool
  reqIsInternal :: bool
  SequenceID :: uint64
  reqParameters :: "string \<rightharpoonup> iface"
  Bindings :: "string \<rightharpoonup> execBindParameter"

text \<open>
  What the connection does to the outside world, in order: a query posted (with its
  headers; the JSON body is written as the request it encodes), a child result fetched
  (its path and headers), the remote session closed, the heartbeat started or stopped.
\<close>

datatype event =
    PostQuery "string \<rightharpoonup> string" execRequest
  | GetResult string "string \<rightharpoonup> string"
  | CloseSession
  | HeartBeatStart
  | HeartBeatStop

text \<open>
  \<^verbatim>\<open>snowflakeRestful\<close>: the transport's function fields answer from what has happened so
  far. \<^verbatim>\<open>FuncGet\<close>'s HTTP response is written as what decoding its body into an
  \<^verbatim>\<open>*execResponse\<close> gives: a decoding error, nil (the JSON \<^verbatim>\<open>null\<close>) or a response.
  \<^verbatim>\<open>HeartBeat\<close> is \<open>None\<close> for a nil pointer.
\<close>

record snowflakeRestful =
  FuncPostQuery :: "event list \<Rightarrow> (string \<rightharpoonup> string) \<Rightarrow> execRequest \<Rightarrow> execResponse option \<times> go_error option"
  FuncGet :: "event list \<Rightarrow> string \<Rightarrow> (string \<rightharpoonup> string) \<Rightarrow> go_error + (go_error + execResponse option)"
  FuncCloseSession :: "event list \<Rightarrow> go_error option"
  Token :: string
  HeartBeat :: "unit option"

text \<open>\<^verbatim>\<open>Params\<close> is a \<^verbatim>\<open>map[string]*string\<close>; every pointer the file stores in it is the
  address of a local variable, so an entry is its string. The map is taken as allocated
  (a write to a nil map, which panics, is not part of the embedding).\<close>

record Config =
  Database :: string
  Schema :: string
  Role :: string
  Warehouse :: string
  Params :: "string \<rightharpoonup> string"

record snowflakeConn =
  cfg :: "Config option"
  rest :: "snowflakeRestful option"
  SequenceCounter :: uint64
  QueryID :: string
  SQLState :: string

text \<open>
  The functions and constants of the package that \<^verbatim>\<open>connection.go\<close> uses and that are not
  in the sources at hand, with \<^verbatim>\<open>strconv.FormatFloat(v, 'g', -1, 64)\<close>, the Unicode branch
  of \<^verbatim>\<open>strings.ToLower\<close> and the failure of \<^verbatim>\<open>json.Marshal\<close>: parameters of the embedding.
\<close>

record pkg =
  goTypeToSnowflake :: "iface \<Rightarrow> string \<Rightarrow> string"
  dataTypeMode :: "iface \<Rightarrow> go_error + string"
  arrayToString :: "iface \<Rightarrow> string \<times> iface"
  valueToString :: "iface \<Rightarrow> string \<Rightarrow> go_error + iface"
  FormatFloat :: "float64 \<Rightarrow> string"
  unicodeToLower :: "string \<Rightarrow> string"
  Marshal :: "execRequest \<Rightarrow> go_error option"
  headerContentTypeApplicationJSON :: string
  headerAcceptTypeApplicationSnowflake :: string
  userAgent :: string
  headerAuthorizationKey :: string
  headerSnowflakeToken :: "string \<Rightarrow> string"
  ErrNoReadOnlyTransaction :: int
  ErrNoDefaultTransactionIsolationLevel :: int
  SQLStateFeatureNotSupported :: string
  errMsgNoReadOnlyTransaction :: string
  errMsgNoDefaultTransactionIsolationLevel :: string

section \<open>Statement types\<close>

definition statementTypeIDMulti :: int64 where
  "statementTypeIDMulti = 0x1000"

definition statementTypeIDDml :: int64 where
  "statementTypeIDDml = 0x3000"

definition statementTypeIDMultiTableInsert :: int64 where
  "statementTypeIDMultiTableInsert = statementTypeIDDml + 0x500"

definition sessionClientSessionKeepAlive :: string where
  "sessionClientSessionKeepAlive = ''client_session_keep_alive''"

definition serviceName :: string where
  "serviceName = ''service_name''"

definition isDml :: "int64 \<Rightarrow> bool" where
  "isDml v = (sint statementTypeIDDml \<le> sint v \<and> sint v \<le> sint statementTypeIDMultiTableInsert)"

text \<open>\<^verbatim>\<open>&&\<close> evaluates \<^verbatim>\<open>data.RowType[0]\<close> only when the identifier is the sentinel.\<close>

definition isMultiStmt :: "execResponseData \<Rightarrow> bool outcome" where
  "isMultiStmt data =
     (if StatementTypeID data = statementTypeIDMulti then
        (case RowType data of
           [] \<Rightarrow> Panic IndexOutOfRange
         | c # _ \<Rightarrow> Ret (Name c = ''multiple statement execution''))
      else Ret False)"

section \<open>exec\<close>

text \<open>
  The binding loop of \<^verbatim>\<open>exec\<close> (lines 87 to 116) over the values of the
  \<^verbatim>\<open>driver.NamedValue\<close>s, with the timestamp mode, the next slot \<^verbatim>\<open>idx\<close> and the
  bindings built so far. An error of \<^verbatim>\<open>dataTypeMode\<close> or \<^verbatim>\<open>valueToString\<close> ends \<^verbatim>\<open>exec\<close>.
\<close>

fun exec_bindings ::
  "pkg \<Rightarrow> iface list \<Rightarrow> string \<Rightarrow> int \<Rightarrow> (string \<rightharpoonup> execBindParameter)
     \<Rightarrow> go_error + (string \<rightharpoonup> execBindParameter)" where
  "exec_bindings p [] tsmode idx bs = Inr bs"
| "exec_bindings p (v # vs) tsmode idx bs =
     (let t = goTypeToSnowflake p v tsmode in
      if t = ''CHANGE_TYPE'' then
        (case dataTypeMode p v of
           Inl err \<Rightarrow> Inl err
         | Inr tsmode' \<Rightarrow> exec_bindings p vs tsmode' idx bs)
      else if t = ''ARRAY'' then
        (case arrayToString p v of
           (t', v1) \<Rightarrow> exec_bindings p vs tsmode (idx + 1) (bs(Itoa idx \<mapsto> \<lparr>Type = t', Value = v1\<rparr>)))
      else
        (case valueToString p v tsmode of
           Inl err \<Rightarrow> Inl err
         | Inr v1 \<Rightarrow> exec_bindings p vs tsmode (idx + 1) (bs(Itoa idx \<mapsto> \<lparr>Type = t, Value = v1\<rparr>))))"

definition exec_headers :: "pkg \<Rightarrow> Config \<Rightarrow> (string \<rightharpoonup> string)" where
  "exec_headers p c =
     (let headers = [''Content-Type'' \<mapsto> headerContentTypeApplicationJSON p,
                     ''accept'' \<mapsto> headerAcceptTypeApplicationSnowflake p,
                     ''User-Agent'' \<mapsto> userAgent p]
      in case Params c serviceName of
           None \<Rightarrow> headers
         | Some name \<Rightarrow> headers(''X-Snowflake-Service'' \<mapsto> name))"

text \<open>The \<^verbatim>\<open>switch\<close> of \<^verbatim>\<open>populateSessionParameters\<close>: a value of another type gives the
  empty string.\<close>

definition param_text :: "pkg \<Rightarrow> iface \<Rightarrow> string" where
  "param_text p v =
     (case v of
        IInt64 vv \<Rightarrow> FormatInt vv
      | IFloat64 vv \<Rightarrow> FormatFloat p vv
      | IBool vv \<Rightarrow> FormatBool vv
      | IString vv \<Rightarrow> vv
      | _ \<Rightarrow> [])"

fun populateSessionParameters :: "pkg \<Rightarrow> nameValueParameter list \<Rightarrow> Config \<Rightarrow> Config" where
  "populateSessionParameters p [] c = c"
| "populateSessionParameters p (param # ps) c =
     populateSessionParameters p ps
       (c\<lparr>Params := (Params c)(ToLower (unicodeToLower p) (paramName param) \<mapsto> param_text p (paramValue param))\<rparr>)"

text \<open>
  A call of \<^verbatim>\<open>exec\<close> returns the connection as it left it, what has happened, and either
  a panic or the pair \<^verbatim>\<open>(*execResponse, error)\<close>.
\<close>

type_synonym exec_result = "snowflakeConn \<times> event list \<times> (execResponse option \<times> go_error option) outcome"

text \<open>
  Lines 62 to 135: the counter, the request, the bindings, the headers, the JSON body and
  the post. \<open>Inl\<close> is a call that ended before a response came; \<open>Inr\<close> is what
  \<^verbatim>\<open>FuncPostQuery\<close> returned.
\<close>

definition exec_send ::
  "pkg \<Rightarrow> go_context \<Rightarrow> string \<Rightarrow> bool \<Rightarrow> bool \<Rightarrow> iface list \<Rightarrow> snowflakeConn \<Rightarrow> event list
     \<Rightarrow> snowflakeConn \<times> event list
         \<times> ((execResponse option \<times> go_error option) outcome + (execResponse option \<times> go_error option))" where
  "exec_send p ctx query noResult isInternal bindings sc tr =
     (let counter = SequenceCounter sc + 1;
          sc1 = sc\<lparr>SequenceCounter := counter\<rparr>;
          req = \<lparr>SQLText = query, AsyncExec = noResult, reqIsInternal = isInternal,
                 SequenceID = counter,
                 reqParameters = (case ctx MultiStatementCount of
                                    None \<Rightarrow> Map.empty
                                  | Some key \<Rightarrow> [''MULTI_STATEMENT_COUNT'' \<mapsto> key]),
                 Bindings = Map.empty\<rparr>
      in case exec_bindings p bindings ''TIMESTAMP_NTZ'' 1 Map.empty of
           Inl err \<Rightarrow> (sc1, tr, Inl (Ret (None, Some err)))
         | Inr bs \<Rightarrow>
             (case cfg sc1 of
                None \<Rightarrow> (sc1, tr, Inl (Panic NilPointerDereference))
              | Some c \<Rightarrow>
                  (case Marshal p (req\<lparr>Bindings := bs\<rparr>) of
                     Some err \<Rightarrow> (sc1, tr, Inl (Ret (None, Some err)))
                   | None \<Rightarrow>
                       (case rest sc1 of
                          None \<Rightarrow> (sc1, tr, Inl (Panic NilPointerDereference))
                        | Some r \<Rightarrow>
                            (sc1, tr @ [PostQuery (exec_headers p c) (req\<lparr>Bindings := bs\<rparr>)],
                             Inr (FuncPostQuery r tr (exec_headers p c) (req\<lparr>Bindings := bs\<rparr>)))))))"

text \<open>Lines 136 to 167: what \<^verbatim>\<open>exec\<close> does with the pair \<^verbatim>\<open>FuncPostQuery\<close> returned.\<close>

definition exec_receive ::
  "pkg \<Rightarrow> snowflakeConn \<Rightarrow> event list \<Rightarrow> execResponse option \<Rightarrow> go_error option \<Rightarrow> exec_result" where
  "exec_receive p sc tr data err =
     (case err of
        Some e \<Rightarrow> (sc, tr, Ret (data, Some e))
      | None \<Rightarrow>
          (case data of
             None \<Rightarrow> (sc, tr, Panic NilPointerDereference)
           | Some d \<Rightarrow>
               (case (if Code d \<noteq> [] then Atoi (Code d) else Inr (- 1)) of
                  Inl e \<Rightarrow> (sc, tr, Ret (Some d, Some e))
                | Inr code \<Rightarrow>
                    if \<not> Success d then
                      (sc, tr, Ret (None, Some (SnowflakeErr
                         \<lparr>Number = code, errSQLState = respSQLState (Data d),
                          errMessage = Message d, errQueryID = respQueryID (Data d)\<rparr>)))
                    else
                      (case cfg sc of
                         None \<Rightarrow> (sc, tr, Panic NilPointerDereference)
                       | Some c \<Rightarrow>
                           (sc\<lparr>cfg := Some (populateSessionParameters p (Parameters (Data d))
                                   (c\<lparr>Database := FinalDatabaseName (Data d),
                                      Schema := FinalSchemaName (Data d),
                                      Role := FinalRoleName (Data d),
                                      Warehouse := FinalWarehouseName (Data d)\<rparr>)),
                               QueryID := respQueryID (Data d),
                               SQLState := respSQLState (Data d)\<rparr>,
                            tr, Ret (Some d, None))))))"

definition exec ::
  "pkg \<Rightarrow> go_context \<Rightarrow> string \<Rightarrow> bool \<Rightarrow> bool \<Rightarrow> iface list \<Rightarrow> snowflakeConn \<Rightarrow> event list \<Rightarrow> exec_result" where
  "exec p ctx query noResult isInternal bindings sc tr =
     (case exec_send p ctx query noResult isInternal bindings sc tr of
        (sc1, tr1, Inl out) \<Rightarrow> (sc1, tr1, out)
      | (sc1, tr1, Inr (data, err)) \<Rightarrow> exec_receive p sc1 tr1 data err)"

section \<open>Request options, row counts and child results\<close>

definition isInternal :: "go_context \<Rightarrow> go_error + bool" where
  "isInternal ctx =
     (case ctx IsInternal of
        None \<Rightarrow> Inr False
      | Some (IBool boolVal) \<Rightarrow> Inr boolVal
      | Some val \<Rightarrow> Inl (CastError val))"

definition isAsyncMode :: "go_context \<Rightarrow> go_error + bool" where
  "isAsyncMode ctx =
     (case ctx AsyncMode of
        None \<Rightarrow> Inr False
      | Some (IBool boolVal) \<Rightarrow> Inr boolVal
      | Some val \<Rightarrow> Inl (CastError val))"

text \<open>
  \<^verbatim>\<open>updateRows\<close>: the loop over the column positions reads \<^verbatim>\<open>*data.RowSet[0][i]\<close>, which
  panics without a first row, without an \<open>i\<close>-th cell or on a nil cell. On a parse error
  the source returns \<^verbatim>\<open>(-1, err)\<close>; every caller drops the count then, so the error stands
  alone.
\<close>

fun updateRows_loop :: "execResponseData \<Rightarrow> nat list \<Rightarrow> int64 \<Rightarrow> (go_error + int64) outcome" where
  "updateRows_loop data [] count = Ret (Inr count)"
| "updateRows_loop data (i # rest_is) count =
     (case RowSet data of
        [] \<Rightarrow> Panic IndexOutOfRange
      | row # _ \<Rightarrow>
          if length row \<le> i then Panic IndexOutOfRange
          else (case row ! i of
                  None \<Rightarrow> Panic NilPointerDereference
                | Some s \<Rightarrow>
                    (case ParseInt s of
                       Inl err \<Rightarrow> Ret (Inl err)
                     | Inr v \<Rightarrow> updateRows_loop data rest_is (count + v))))"

definition updateRows :: "execResponseData \<Rightarrow> (go_error + int64) outcome" where
  "updateRows data = updateRows_loop data [0..<length (RowType data)] 0"

record childResult =
  child_id :: string
  child_typ :: string

text \<open>\<^verbatim>\<open>getChildResults\<close>: \<^verbatim>\<open>resultTypes[i]\<close> panics when there are fewer types than ids.\<close>

definition getChildResults :: "string \<Rightarrow> string \<Rightarrow> childResult list outcome" where
  "getChildResults IDs types =
     (if IDs = [] then Ret []
      else
        let queryIDs = Split IDs (CHR '','');
            resultTypes = Split types (CHR '','')
        in if length resultTypes < length queryIDs then Panic IndexOutOfRange
           else Ret (map (\<lambda>(i, t). \<lparr>child_id = i, child_typ = t\<rparr>) (zip queryIDs resultTypes)))"

text \<open>
  \<^verbatim>\<open>getQueryResult\<close>: the request id, the GUID and the start time of the URL are fresh
  values the callers never read; the event keeps the path and the headers. Every
  failure returns a nil response with the error.
\<close>

definition getQueryResult ::
  "pkg \<Rightarrow> snowflakeConn \<Rightarrow> event list \<Rightarrow> string
     \<Rightarrow> event list \<times> (execResponse option \<times> go_error option) outcome" where
  "getQueryResult p sc tr resultPath =
     (case cfg sc of
        None \<Rightarrow> (tr, Panic NilPointerDereference)
      | Some c \<Rightarrow>
          (case rest sc of
             None \<Rightarrow> (tr, Panic NilPointerDereference)
           | Some r \<Rightarrow>
               (let headers = (if Token r \<noteq> []
                               then (exec_headers p c)(headerAuthorizationKey p \<mapsto> headerSnowflakeToken p (Token r))
                               else exec_headers p c)
                in (tr @ [GetResult resultPath headers],
                    (case FuncGet r tr resultPath headers of
                       Inl err \<Rightarrow> Ret (None, Some err)
                     | Inr (Inl err) \<Rightarrow> Ret (None, Some err)
                     | Inr (Inr respd) \<Rightarrow> Ret (respd, None))))))"

section \<open>Transactions, Close and Prepare\<close>

record TxOptions =
  Isolation :: int
  ReadOnly :: bool

definition LevelDefault :: int where
  "LevelDefault = 0"

text \<open>
  \<^verbatim>\<open>&snowflakeTx{sc}\<close> and \<^verbatim>\<open>&snowflakeStmt{sc: sc, query: query}\<close> hold the receiver
  \<^verbatim>\<open>sc\<close> itself, a pointer: the handle is bound to the connection the method was
  called on, whose state the method returns beside it.
\<close>

datatype snowflakeTx = snowflakeTx


definition BeginTx ::
  "pkg \<Rightarrow> go_context \<Rightarrow> TxOptions \<Rightarrow> snowflakeConn \<Rightarrow> event list
     \<Rightarrow> snowflakeConn \<times> event list \<times> (go_error + snowflakeTx) outcome" where
  "BeginTx p ctx opts sc tr =
     (if ReadOnly opts then
        (sc, tr, Ret (Inl (SnowflakeErr
           \<lparr>Number = ErrNoReadOnlyTransaction p, errSQLState = SQLStateFeatureNotSupported p,
            errMessage = errMsgNoReadOnlyTransaction p, errQueryID = []\<rparr>)))
      else if Isolation opts \<noteq> LevelDefault then
        (sc, tr, Ret (Inl (SnowflakeErr
           \<lparr>Number = ErrNoDefaultTransactionIsolationLevel p, errSQLState = SQLStateFeatureNotSupported p,
            errMessage = errMsgNoDefaultTransactionIsolationLevel p, errQueryID = []\<rparr>)))
      else if rest sc = None then (sc, tr, Ret (Inl ErrBadConn))
      else
        (case exec p ctx ''BEGIN'' False False [] sc tr of
           (sc1, tr1, Panic pn) \<Rightarrow> (sc1, tr1, Panic pn)
         | (sc1, tr1, Ret (_, Some err)) \<Rightarrow> (sc1, tr1, Ret (Inl err))
         | (sc1, tr1, Ret (_, None)) \<Rightarrow> (sc1, tr1, Ret (Inr snowflakeTx))))"

definition Begin ::
  "pkg \<Rightarrow> snowflakeConn \<Rightarrow> event list \<Rightarrow> snowflakeConn \<times> event list \<times> (go_error + snowflakeTx) outcome" where
  "Begin p sc tr = BeginTx p TODO \<lparr>Isolation = 0, ReadOnly = False\<rparr> sc tr"

definition isClientSessionKeepAliveEnabled :: "snowflakeConn \<Rightarrow> bool outcome" where
  "isClientSessionKeepAliveEnabled sc =
     (case cfg sc of
        None \<Rightarrow> Panic NilPointerDereference
      | Some c \<Rightarrow>
          (case Params c sessionClientSessionKeepAlive of
             None \<Rightarrow> Ret False
           | Some v \<Rightarrow> Ret (v = ''true'')))"

text \<open>
  \<^verbatim>\<open>startHeartBeat\<close> stores a new heartbeat in \<^verbatim>\<open>sc.rest.HeartBeat\<close> and calls its method
  \<^verbatim>\<open>start\<close>, which is not in the sources at hand: it is the event \<open>HeartBeatStart\<close>.
\<close>

definition startHeartBeat ::
  "snowflakeConn \<Rightarrow> event list \<Rightarrow> snowflakeConn \<times> event list \<times> unit outcome" where
  "startHeartBeat sc tr =
     (case isClientSessionKeepAliveEnabled sc of
        Panic pn \<Rightarrow> (sc, tr, Panic pn)
      | Ret False \<Rightarrow> (sc, tr, Ret ())
      | Ret True \<Rightarrow>
          (case rest sc of
             None \<Rightarrow> (sc, tr, Panic NilPointerDereference)
           | Some r \<Rightarrow>
               (sc\<lparr>rest := Some (r\<lparr>HeartBeat := Some ()\<rparr>)\<rparr>, tr @ [HeartBeatStart], Ret ())))"





section \<open>ExecContext\<close>

text \<open>\<^verbatim>\<open>driver.ResultNoRows\<close>, or a \<^verbatim>\<open>*snowflakeResult\<close>.\<close>

datatype driver_result = ResultNoRows | snowflakeResult (affectedRows: int64) (insertID: int64) (queryID: string)

text \<open>
  The \<^verbatim>\<open>if data != nil\<close> blocks that wrap an error declare a new \<^verbatim>\<open>err\<close> with
  \<^verbatim>\<open>code, err := strconv.Atoi(...)\<close>. When the code does not parse, that error is
  returned; when it parses, the new \<^verbatim>\<open>err\<close> is nil and \<^verbatim>\<open>err.Error()\<close>, evaluated to
  fill \<^verbatim>\<open>Message\<close>, is a nil pointer dereference.
\<close>

definition wrap_error :: "execResponse \<Rightarrow> (go_error + 'a) outcome" where
  "wrap_error data =
     (case Atoi (Code data) of
        Inl err \<Rightarrow> Ret (Inl err)
      | Inr code \<Rightarrow> Panic NilPointerDereference)"

text \<open>
  The loop over the child results of \<^verbatim>\<open>ExecContext\<close> (lines 278 to 315), with the rows
  counted so far. After a failed fetch, line 283 reads \<^verbatim>\<open>childData.Code\<close> before line 287
  asks whether \<^verbatim>\<open>childData\<close> is nil.
\<close>

fun ExecContext_children ::
  "pkg \<Rightarrow> snowflakeConn \<Rightarrow> childResult list \<Rightarrow> int64 \<Rightarrow> event list
     \<Rightarrow> event list \<times> (go_error + int64) outcome" where
  "ExecContext_children p sc [] updatedRows tr = (tr, Ret (Inr updatedRows))"
| "ExecContext_children p sc (child # children) updatedRows tr =
     (case getQueryResult p sc tr (''/queries/'' @ child_id child @ ''/result'') of
        (tr1, Panic pn) \<Rightarrow> (tr1, Panic pn)
      | (tr1, Ret (childData, Some err)) \<Rightarrow>
          (case childData of
             None \<Rightarrow> (tr1, Panic NilPointerDereference)
           | Some cd \<Rightarrow> (tr1, wrap_error cd))
      | (tr1, Ret (childData, None)) \<Rightarrow>
          (case childData of
             None \<Rightarrow> (tr1, Panic NilPointerDereference)
           | Some cd \<Rightarrow>
               if isDml (StatementTypeID (Data cd)) then
                 (case updateRows (Data cd) of
                    Panic pn \<Rightarrow> (tr1, Panic pn)
                  | Ret (Inl err) \<Rightarrow> (tr1, wrap_error cd)
                  | Ret (Inr count) \<Rightarrow> ExecContext_children p sc children (updatedRows + count) tr1)
               else ExecContext_children p sc children updatedRows tr1))"

text \<open>The multi-statement branch of \<^verbatim>\<open>ExecContext\<close> (lines 277 to 321).\<close>

definition ExecContext_multi ::
  "pkg \<Rightarrow> snowflakeConn \<Rightarrow> event list \<Rightarrow> execResponseData
     \<Rightarrow> snowflakeConn \<times> event list \<times> (go_error + driver_result) outcome" where
  "ExecContext_multi p sc tr data =
     (case getChildResults (ResultIDs data) (ResultTypes data) of
        Panic pn \<Rightarrow> (sc, tr, Panic pn)
      | Ret childResults \<Rightarrow>
          (case ExecContext_children p sc childResults 0 tr of
             (tr2, Panic pn) \<Rightarrow> (sc, tr2, Panic pn)
           | (tr2, Ret (Inl err)) \<Rightarrow> (sc, tr2, Ret (Inl err))
           | (tr2, Ret (Inr updatedRows)) \<Rightarrow>
               (sc, tr2, Ret (Inr (snowflakeResult updatedRows (- 1) (QueryID sc))))))"

definition ExecContext ::
  "pkg \<Rightarrow> go_context \<Rightarrow> string \<Rightarrow> iface list \<Rightarrow> snowflakeConn \<Rightarrow> event list
     \<Rightarrow> snowflakeConn \<times> event list \<times> (go_error + driver_result) outcome" where
  "ExecContext p ctx query args sc tr =
     (if rest sc = None then (sc, tr, Ret (Inl ErrBadConn))
      else
        (case isInternal ctx of
           Inl err \<Rightarrow> (sc, tr, Ret (Inl err))
         | Inr internal \<Rightarrow>
             (case isAsyncMode ctx of
                Inl err \<Rightarrow> (sc, tr, Ret (Inl err))
              | Inr noResult \<Rightarrow>
                  (case exec p ctx query noResult internal args sc tr of
                     (sc1, tr1, Panic pn) \<Rightarrow> (sc1, tr1, Panic pn)
                   | (sc1, tr1, Ret (data, Some err)) \<Rightarrow>
                       (case data of
                          Some d \<Rightarrow> (sc1, tr1, wrap_error d)
                        | None \<Rightarrow> (sc1, tr1, Ret (Inl err)))
                   | (sc1, tr1, Ret (data, None)) \<Rightarrow>
                       (case data of
                          None \<Rightarrow> (sc1, tr1, Panic NilPointerDereference)
                        | Some d \<Rightarrow>
                            if isDml (StatementTypeID (Data d)) then
                              (case updateRows (Data d) of
                                 Panic pn \<Rightarrow> (sc1, tr1, Panic pn)
                               | Ret (Inl err) \<Rightarrow> (sc1, tr1, Ret (Inl err))
                               | Ret (Inr updatedRows) \<Rightarrow>
                                   (sc1, tr1, Ret (Inr (snowflakeResult updatedRows (- 1) (QueryID sc1)))))
                            else
                              (case isMultiStmt (Data d) of
                                 Panic pn \<Rightarrow> (sc1, tr1, Panic pn)
                               | Ret True \<Rightarrow> ExecContext_multi p sc1 tr1 (Data d)
                               | Ret False \<Rightarrow> (sc1, tr1, Ret (Inr ResultNoRows))))))))"

section \<open>QueryContext and Ping\<close>

text \<open>
  A \<^verbatim>\<open>snowflakeChunkDownloader\<close> as \<^verbatim>\<open>populateChunkDownloader\<close> fills it from a response's
  data (the function fields are the same package functions in every downloader, and
  \<^verbatim>\<open>CurrentChunk\<close> is a fresh buffer of the given length). The \<^verbatim>\<open>NextDownloader\<close> links
  of \<^verbatim>\<open>rows.ChunkDownloader\<close> are written as the list of the downloaders in the chain.
\<close>

record snowflakeChunkDownloader =
  CurrentChunk :: nat
  ChunkMetas :: "string list"
  dlTotal :: int64
  TotalRowIndex :: int64
  CellCount :: nat
  dlQrmk :: string
  dlQueryResultFormat :: string
  ChunkHeader :: "string \<rightharpoonup> string"
  dlRowType :: "execResponseRowType list"
  JSON :: "string option list list"
  dlRowSetBase64 :: string

definition populateChunkDownloader :: "execResponseData \<Rightarrow> snowflakeChunkDownloader" where
  "populateChunkDownloader data =
     \<lparr>CurrentChunk = length (RowSet data), ChunkMetas = Chunks data, dlTotal = Total data,
      TotalRowIndex = - 1, CellCount = length (RowType data), dlQrmk = Qrmk data,
      dlQueryResultFormat = QueryResultFormat data, ChunkHeader = ChunkHeaders data,
      dlRowType = RowType data, JSON = RowSet data, dlRowSetBase64 = RowSetBase64 data\<rparr>"

record snowflakeRows =
  rowsRowType :: "execResponseRowType list"
  ChunkDownloader :: "snowflakeChunkDownloader list"
  rowsQueryID :: string

text \<open>
  The loop over the child results of \<^verbatim>\<open>QueryContext\<close> (lines 387 to 414), with the
  downloaders chained so far: the first child's downloader replaces the parent's, each
  later one is linked behind the last.
\<close>

fun QueryContext_children ::
  "pkg \<Rightarrow> snowflakeConn \<Rightarrow> childResult list \<Rightarrow> snowflakeChunkDownloader list \<Rightarrow> event list
     \<Rightarrow> event list \<times> (go_error + snowflakeChunkDownloader list) outcome" where
  "QueryContext_children p sc [] chain tr = (tr, Ret (Inr chain))"
| "QueryContext_children p sc (child # children) chain tr =
     (case getQueryResult p sc tr (''/queries/'' @ child_id child @ ''/result'') of
        (tr1, Panic pn) \<Rightarrow> (tr1, Panic pn)
      | (tr1, Ret (childData, Some err)) \<Rightarrow>
          (case childData of
             Some cd \<Rightarrow> (tr1, wrap_error cd)
           | None \<Rightarrow> (tr1, Ret (Inl err)))
      | (tr1, Ret (childData, None)) \<Rightarrow>
          (case childData of
             None \<Rightarrow> (tr1, Panic NilPointerDereference)
           | Some cd \<Rightarrow>
               QueryContext_children p sc children (chain @ [populateChunkDownloader (Data cd)]) tr1))"

text \<open>
  \<^verbatim>\<open>QueryContext\<close>. The last statement before the return, \<^verbatim>\<open>rows.ChunkDownloader.start()\<close>,
  belongs to the chunk downloader, which is not in the sources at hand; its result is
  dropped by the source and the rows are returned as filled here.
\<close>

definition QueryContext ::
  "pkg \<Rightarrow> go_context \<Rightarrow> string \<Rightarrow> iface list \<Rightarrow> snowflakeConn \<Rightarrow> event list
     \<Rightarrow> snowflakeConn \<times> event list \<times> (go_error + snowflakeRows) outcome" where
  "QueryContext p ctx query args sc tr =
     (if rest sc = None then (sc, tr, Ret (Inl ErrBadConn))
      else
        (case isInternal ctx of
           Inl err \<Rightarrow> (sc, tr, Ret (Inl err))
         | Inr internal \<Rightarrow>
             (case isAsyncMode ctx of
                Inl err \<Rightarrow> (sc, tr, Ret (Inl err))
              | Inr noResult \<Rightarrow>
                  (case exec p ctx query noResult internal args sc tr of
                     (sc1, tr1, Panic pn) \<Rightarrow> (sc1, tr1, Panic pn)
                   | (sc1, tr1, Ret (data, Some err)) \<Rightarrow>
                       (case data of
                          Some d \<Rightarrow> (sc1, tr1, wrap_error d)
                        | None \<Rightarrow> (sc1, tr1, Ret (Inl err)))
                   | (sc1, tr1, Ret (data, None)) \<Rightarrow>
                       (case data of
                          None \<Rightarrow> (sc1, tr1, Panic NilPointerDereference)
                        | Some d \<Rightarrow>
                            (case isMultiStmt (Data d) of
                               Panic pn \<Rightarrow> (sc1, tr1, Panic pn)
                             | Ret False \<Rightarrow>
                                 (sc1, tr1, Ret (Inr \<lparr>rowsRowType = RowType (Data d),
                                    ChunkDownloader = [populateChunkDownloader (Data d)],
                                    rowsQueryID = QueryID sc1\<rparr>))
                             | Ret True \<Rightarrow>
                                 (case getChildResults (ResultIDs (Data d)) (ResultTypes (Data d)) of
                                    Panic pn \<Rightarrow> (sc1, tr1, Panic pn)
                                  | Ret childResults \<Rightarrow>
                                      (case QueryContext_children p sc1 childResults [] tr1 of
                                         (tr2, Panic pn) \<Rightarrow> (sc1, tr2, Panic pn)
                                       | (tr2, Ret (Inl err)) \<Rightarrow> (sc1, tr2, Ret (Inl err))
                                       | (tr2, Ret (Inr chain)) \<Rightarrow>
                                           (sc1, tr2, Ret (Inr \<lparr>rowsRowType = RowType (Data d),
                                              ChunkDownloader = (if chain = [] then [populateChunkDownloader (Data d)] else chain),
                                              rowsQueryID = QueryID sc1\<rparr>))))))))))"


section \<open>Sequences of calls, and the bindings in the specification's words\<close>

text \<open>
  A sequence of \<^verbatim>\<open>exec\<close> calls on one connection: each call (its context, query, flags
  and bind values) runs on the connection and the events the call before left, whatever
  that call returned. The result lists, for each call in order, the sequence numbers of
  the requests the call posted, and gives the connection and the events at the end.
\<close>

fun sequence_ids :: "event list \<Rightarrow> uint64 list" where
  "sequence_ids [] = []"
| "sequence_ids (PostQuery h req # es) = SequenceID req # sequence_ids es"
| "sequence_ids (e # es) = sequence_ids es"

type_synonym exec_call = "go_context \<times> string \<times> bool \<times> bool \<times> iface list"

fun exec_calls ::
  "pkg \<Rightarrow> exec_call list \<Rightarrow> snowflakeConn \<Rightarrow> event list
     \<Rightarrow> uint64 list list \<times> snowflakeConn \<times> event list" where
  "exec_calls p [] sc tr = ([], sc, tr)"
| "exec_calls p ((ctx, query, noResult, isInt, bindings) # calls) sc tr =
     (case exec p ctx query noResult isInt bindings sc tr of
        (sc1, tr1, out) \<Rightarrow>
          (case exec_calls p calls sc1 tr1 of
             (ids, sc2, tr2) \<Rightarrow> (sequence_ids (drop (length tr) tr1) # ids, sc2, tr2)))"

text \<open>
  The encoding of a list of bind values as the specification describes it, to compare
  with the loop of \<^verbatim>\<open>exec\<close>: a value whose inferred type is the signal \<^verbatim>\<open>CHANGE_TYPE\<close>
  sets the timestamp mode for the values after it and gives no entry; an array gives the
  one entry \<^verbatim>\<open>arrayToString\<close> returns (type tag and value); any other value gives its
  inferred type with the text of \<^verbatim>\<open>valueToString\<close>. \<open>bind_entries\<close> lists the entries in
  input order. (Where a conversion fails there is no encoding; the entry then holds
  \<open>IOther\<close> and the mode stays.)
\<close>

definition bind_entry :: "pkg \<Rightarrow> iface \<Rightarrow> string \<Rightarrow> execBindParameter" where
  "bind_entry p v tsmode =
     (if goTypeToSnowflake p v tsmode = ''ARRAY''
      then \<lparr>Type = fst (arrayToString p v), Value = snd (arrayToString p v)\<rparr>
      else \<lparr>Type = goTypeToSnowflake p v tsmode,
            Value = (case valueToString p v tsmode of Inl err \<Rightarrow> IOther | Inr text \<Rightarrow> text)\<rparr>)"

fun bind_entries :: "pkg \<Rightarrow> iface list \<Rightarrow> string \<Rightarrow> execBindParameter list" where
  "bind_entries p [] tsmode = []"
| "bind_entries p (v # vs) tsmode =
     (if goTypeToSnowflake p v tsmode = ''CHANGE_TYPE''
      then bind_entries p vs (case dataTypeMode p v of Inl err \<Rightarrow> tsmode | Inr tsmode' \<Rightarrow> tsmode')
      else bind_entry p v tsmode # bind_entries p vs tsmode)"

section \<open>Concrete collaborators and inputs\<close>

text \<open>
  A package, a transport and a connection to run the functions on: the converters know
  the integer, text and boolean values, take a byte slice for the signal that changes
  the timestamp mode, a slice of integers for an array and \<open>IOther\<close> for a time, whose
  type is the timestamp mode; the transport answers every post with \<open>answer\<close> and the
  fetch of a path with \<open>children path\<close>.
\<close>

definition stub_pkg :: pkg where
  "stub_pkg =
     \<lparr>goTypeToSnowflake = (\<lambda>v tsmode. case v of
          IInt64 _ \<Rightarrow> ''FIXED'' | IBool _ \<Rightarrow> ''BOOLEAN'' | IBytes _ \<Rightarrow> ''CHANGE_TYPE''
        | IInts _ \<Rightarrow> ''ARRAY'' | IOther \<Rightarrow> tsmode | _ \<Rightarrow> ''TEXT''),
      dataTypeMode = (\<lambda>v. case v of
          IBytes bs \<Rightarrow> Inr ''TIMESTAMP_LTZ''
        | _ \<Rightarrow> Inl (ExternalError ''no type mode'')),
      arrayToString = (\<lambda>v. case v of
          IInts xs \<Rightarrow> (''ARRAY'', IStrings (map Itoa xs))
        | _ \<Rightarrow> (''ARRAY'', IStrings [])),
      valueToString = (\<lambda>v tsmode. case v of
          IInt64 x \<Rightarrow> Inr (IString (FormatInt x))
        | IBool b \<Rightarrow> Inr (IString (FormatBool b))
        | IString s \<Rightarrow> Inr (IString s)
        | IOther \<Rightarrow> Inr (IString ''1600000000'')
        | _ \<Rightarrow> Inl (ExternalError ''unsupported type'')),
      FormatFloat = (\<lambda>v. ''0''),
      unicodeToLower = (\<lambda>s. s),
      Marshal = (\<lambda>req. None),
      headerContentTypeApplicationJSON = ''application/json'',
      headerAcceptTypeApplicationSnowflake = ''application/snowflake'',
      userAgent = ''Go'',
      headerAuthorizationKey = ''Authorization'',
      headerSnowflakeToken = (\<lambda>token. ''Snowflake Token='' @ token),
      ErrNoReadOnlyTransaction = 268000,
      ErrNoDefaultTransactionIsolationLevel = 268001,
      SQLStateFeatureNotSupported = ''0A000'',
      errMsgNoReadOnlyTransaction = ''no readonly mode is supported'',
      errMsgNoDefaultTransactionIsolationLevel = ''no default isolation transaction level is supported''\<rparr>"

definition stub_rest ::
  "execResponse option \<times> go_error option \<Rightarrow> (string \<Rightarrow> go_error + (go_error + execResponse option))
     \<Rightarrow> snowflakeRestful" where
  "stub_rest answer children =
     \<lparr>FuncPostQuery = (\<lambda>tr headers req. answer),
      FuncGet = (\<lambda>tr path headers. children path),
      FuncCloseSession = (\<lambda>tr. Some (ExternalError ''session gone'')),
      Token = ''token'',
      HeartBeat = Some ()\<rparr>"

definition stub_cfg :: Config where
  "stub_cfg = \<lparr>Database = ''DB'', Schema = ''PUBLIC'', Role = ''R'', Warehouse = ''WH'',
               Params = [''client_session_keep_alive'' \<mapsto> ''true'']\<rparr>"

definition stub_conn ::
  "execResponse option \<times> go_error option \<Rightarrow> (string \<Rightarrow> go_error + (go_error + execResponse option))
     \<Rightarrow> snowflakeConn" where
  "stub_conn answer children =
     \<lparr>cfg = Some stub_cfg, rest = Some (stub_rest answer children), SequenceCounter = 0,
      QueryID = [], SQLState = []\<rparr>"

definition stub_data :: execResponseData where
  "stub_data =
     \<lparr>StatementTypeID = 0, RowType = [], RowSet = [], respSQLState = ''00000'', respQueryID = ''q0'',
      FinalDatabaseName = ''DB2'', FinalSchemaName = ''S2'', FinalRoleName = ''R2'',
      FinalWarehouseName = ''WH2'', Parameters = [], ResultIDs = [], ResultTypes = [],
      Chunks = [], Total = 0, Qrmk = [], QueryResultFormat = ''json'', ChunkHeaders = Map.empty,
      RowSetBase64 = []\<rparr>"

definition stub_response :: "execResponseData \<Rightarrow> execResponse" where
  "stub_response d = \<lparr>Data = d, Message = ''ok'', Code = [], Success = True\<rparr>"

definition no_children :: "string \<Rightarrow> go_error + (go_error + execResponse option)" where
  "no_children path = Inl (ExternalError ''no such result'')"

text \<open>
  The answers to the child fetches of a statement with the children \<^verbatim>\<open>id1\<close> and \<^verbatim>\<open>id2\<close>: two
  inserts of 2 and of 3 rows; and the same with a transport that fails on the second.
\<close>

definition insert_response :: "string \<Rightarrow> execResponse" where
  "insert_response n =
     stub_response (stub_data\<lparr>StatementTypeID := 0x3100,
       RowType := [\<lparr>Name = ''number of rows inserted''\<rparr>], RowSet := [[Some n]]\<rparr>)"

definition two_children :: "string \<Rightarrow> go_error + (go_error + execResponse option)" where
  "two_children path =
     (if path = ''/queries/id1/result'' then Inr (Inr (Some (insert_response ''2'')))
      else if path = ''/queries/id2/result'' then Inr (Inr (Some (insert_response ''3'')))
      else Inl (ExternalError ''no such result''))"

definition second_child_fails :: "string \<Rightarrow> go_error + (go_error + execResponse option)" where
  "second_child_fails path =
     (if path = ''/queries/id1/result'' then Inr (Inr (Some (insert_response ''2'')))
      else Inl (ExternalError ''connection reset''))"

definition multi_response :: execResponse where
  "multi_response =
     stub_response (stub_data\<lparr>StatementTypeID := 0x1000,
       RowType := [\<lparr>Name = ''multiple statement execution''\<rparr>],
       ResultIDs := ''id1,id2'', ResultTypes := ''12544,12544''\<rparr>)"

section \<open>Facts about the library functions\<close>

lemma Atoi_empty: "Atoi [] = Inl (NumError ''Atoi'' [] ErrSyntax)"
  by (simp add: Atoi_def parse_signed_def)

lemma triple_eqI: "snd (snd x) = c \<Longrightarrow> x = (fst x, fst (snd x), c)"
  by (cases x) auto

lemma isInternal_TODO: "isInternal TODO = Inr False"
  by (simp add: isInternal_def TODO_def)

lemma isAsyncMode_TODO: "isAsyncMode TODO = Inr False"
  by (simp add: isAsyncMode_def TODO_def)

lemma not_isDml_Multi: "\<not> isDml statementTypeIDMulti"
  by (simp add: isDml_def statementTypeIDDml_def statementTypeIDMultiTableInsert_def
      statementTypeIDMulti_def)

lemma ParseInt_2: "ParseInt ''2'' = Inr 2"
  by (simp add: ParseInt_def parse_signed_def ParseUint_def digit_val_def)

lemma ParseInt_3: "ParseInt ''3'' = Inr 3"
  by (simp add: ParseInt_def parse_signed_def ParseUint_def digit_val_def)

section \<open>Facts about exec\<close>

text \<open>A call that got an answer from \<^verbatim>\<open>FuncPostQuery\<close> posted one request, numbered by the
  counter it had just advanced.\<close>

lemma exec_send_Inr:
  assumes "exec_send p ctx query noResult isInt args sc tr = (sc1, tr1, Inr ans)"
  shows "\<exists>c r h req. cfg sc = Some c \<and> rest sc = Some r \<and>
           sc1 = sc\<lparr>SequenceCounter := SequenceCounter sc + 1\<rparr> \<and>
           tr1 = tr @ [PostQuery h req] \<and> SQLText req = query \<and>
           SequenceID req = SequenceCounter sc + 1 \<and> ans = FuncPostQuery r tr h req"
  using assms
  by (auto simp: exec_send_def Let_def split: sum.splits option.splits)

text \<open>\<^verbatim>\<open>exec\<close> returns a response and no error only at its last line.\<close>

lemma exec_success:
  assumes "exec p ctx query noResult isInt args sc tr = (sc1, tr1, Ret (Some d, None))"
  shows "\<exists>c r h req. cfg sc = Some c \<and> rest sc = Some r \<and> rest sc1 = Some r \<and>
           cfg sc1 = Some (populateSessionParameters p (Parameters (Data d))
                      (c\<lparr>Database := FinalDatabaseName (Data d), Schema := FinalSchemaName (Data d),
                         Role := FinalRoleName (Data d), Warehouse := FinalWarehouseName (Data d)\<rparr>)) \<and>
           QueryID sc1 = respQueryID (Data d) \<and> SQLState sc1 = respSQLState (Data d) \<and>
           SequenceCounter sc1 = SequenceCounter sc + 1 \<and> Success d \<and>
           tr1 = tr @ [PostQuery h req] \<and> SQLText req = query \<and> SequenceID req = SequenceCounter sc + 1"
proof -
  obtain s2 t2 x where s: "exec_send p ctx query noResult isInt args sc tr = (s2, t2, x)"
    by (cases "exec_send p ctx query noResult isInt args sc tr") auto
  show ?thesis
  proof (cases x)
    case (Inl out)
    with s assms have "out = Ret (Some d, None)" by (simp add: exec_def)
    with s Inl show ?thesis
      by (auto simp: exec_send_def Let_def split: sum.splits option.splits)
  next
    case (Inr ans)
    obtain data err where ans: "ans = (data, err)" by (cases ans) auto
    from exec_send_Inr[OF s[unfolded Inr]] obtain c r h req where
      f: "cfg sc = Some c" "rest sc = Some r" "s2 = sc\<lparr>SequenceCounter := SequenceCounter sc + 1\<rparr>"
         "t2 = tr @ [PostQuery h req]" "SQLText req = query" "SequenceID req = SequenceCounter sc + 1"
      by blast
    from s Inr ans assms have r: "exec_receive p s2 t2 data err = (sc1, tr1, Ret (Some d, None))"
      by (simp add: exec_def)
    then show ?thesis using f
      by (auto simp: exec_receive_def split: option.splits sum.splits if_splits)
  qed
qed

text \<open>On the concrete connection every call without bindings ends with the transport's
  successful answer.\<close>

lemma exec_stub:
  "snd (snd (exec stub_pkg TODO query False False [] (stub_conn (Some (stub_response d), None) children) tr))
     = Ret (Some (stub_response d), None)"
  by (simp add: exec_def exec_send_def exec_receive_def stub_conn_def stub_rest_def stub_response_def
      stub_pkg_def TODO_def)

section \<open>C1: a failed child fetch in ExecContext\<close>

lemma getQueryResult_error_nil:
  "getQueryResult p sc tr path = (tr1, Ret (x, Some err)) \<Longrightarrow> x = None"
  by (auto simp: getQueryResult_def Let_def split: option.splits sum.splits)

lemma ExecContext_children_fetch_error:
  assumes "getQueryResult p sc tr (''/queries/'' @ child_id child @ ''/result'') = (tr1, Ret (x, Some err))"
  shows "ExecContext_children p sc (child # children) updatedRows tr = (tr1, Panic NilPointerDereference)"
  using assms getQueryResult_error_nil[OF assms] by simp

text \<open>
  C1. A statement of two inserts is answered as a multi-statement execution with the
  children \<^verbatim>\<open>id1\<close> and \<^verbatim>\<open>id2\<close>; the first child is fetched and counted, the fetch of the
  second fails in the transport. \<^verbatim>\<open>getQueryResult\<close> returns a nil response with the error
  (\<open>getQueryResult_error_nil\<close>), and \<^verbatim>\<open>ExecContext\<close> reads \<^verbatim>\<open>childData.Code\<close> of that nil
  response before the test \<^verbatim>\<open>childData != nil\<close>: the call ends in a nil pointer
  dereference and returns neither the child's error nor a result
  (\<open>ExecContext_children_fetch_error\<close>, for every child and every error).
\<close>

theorem ExecContext_child_fetch_fails_panics:
  "snd (snd (ExecContext stub_pkg TODO ''INSERT INTO t VALUES (1),(2); INSERT INTO t VALUES (3),(4),(5)'' []
     (stub_conn (Some multi_response, None) second_child_fails) []))
     = Panic NilPointerDereference"
  by (simp add: ExecContext_def ExecContext_multi_def isInternal_def isAsyncMode_def
      exec_def exec_send_def exec_receive_def getQueryResult_def
      stub_conn_def stub_rest_def stub_pkg_def TODO_def second_child_fails_def multi_response_def
      stub_response_def stub_data_def stub_cfg_def insert_response_def
      isDml_def statementTypeIDDml_def statementTypeIDMultiTableInsert_def statementTypeIDMulti_def
      isMultiStmt_def getChildResults_def updateRows_def ParseInt_2 exec_headers_def serviceName_def)

section \<open>C2: the multi-statement sentinel\<close>

text \<open>
  C2 as stated fails in its second part. The response has the identifier \<open>0x1000\<close>, a first
  column of another name and the first row \<^verbatim>\<open>["2"]\<close>: were it dispatched as DML,
  \<^verbatim>\<open>updateRows\<close> would count 2 affected rows; \<^verbatim>\<open>ExecContext\<close> returns
  \<^verbatim>\<open>driver.ResultNoRows\<close>, the result of its last branch.
\<close>

theorem ExecContext_sentinel_other_name_counterexample:
  "StatementTypeID (stub_data\<lparr>StatementTypeID := 0x1000,
         RowType := [\<lparr>Name = ''number of rows inserted''\<rparr>], RowSet := [[Some ''2'']]\<rparr>) = statementTypeIDMulti \<and>
   updateRows (stub_data\<lparr>StatementTypeID := 0x1000,
         RowType := [\<lparr>Name = ''number of rows inserted''\<rparr>], RowSet := [[Some ''2'']]\<rparr>) = Ret (Inr 2) \<and>
   snd (snd (ExecContext stub_pkg TODO ''INSERT INTO t VALUES (1),(2)'' []
     (stub_conn (Some (stub_response (stub_data\<lparr>StatementTypeID := 0x1000,
         RowType := [\<lparr>Name = ''number of rows inserted''\<rparr>], RowSet := [[Some ''2'']]\<rparr>)), None) no_children) []))
     = Ret (Inr ResultNoRows)"
  by (simp add: ExecContext_def isInternal_def isAsyncMode_def
      exec_def exec_send_def exec_receive_def
      stub_conn_def stub_rest_def stub_pkg_def TODO_def
      stub_response_def stub_data_def stub_cfg_def
      isDml_def statementTypeIDDml_def statementTypeIDMultiTableInsert_def statementTypeIDMulti_def
      isMultiStmt_def updateRows_def ParseInt_2)

text \<open>
  C2, amended. Let \<^verbatim>\<open>exec\<close> return a response and no error to \<^verbatim>\<open>ExecContext\<close>, with the
  statement type \<open>0x1000\<close> and a first column. The identifier is outside the DML band
  (\<open>0x3000\<close> to \<open>0x3500\<close>). If the first column's name is
  \<^verbatim>\<open>"multiple statement execution"\<close>, the result of \<^verbatim>\<open>ExecContext\<close> is that of the
  multi-statement branch (the children are fetched and their rows added up); if the name
  differs, \<^verbatim>\<open>ExecContext\<close> takes neither the DML nor the multi-statement branch and returns
  \<^verbatim>\<open>driver.ResultNoRows\<close>, with no further request.
\<close>

theorem ExecContext_sentinel_dispatch:
  assumes "isInternal ctx = Inr internal" and "isAsyncMode ctx = Inr noResult"
    and "exec p ctx query noResult internal args sc tr = (sc1, tr1, Ret (Some d, None))"
    and "StatementTypeID (Data d) = statementTypeIDMulti"
    and "RowType (Data d) = col # cols"
  shows "\<not> isDml (StatementTypeID (Data d)) \<and>
         (Name col = ''multiple statement execution'' \<longrightarrow>
            ExecContext p ctx query args sc tr = ExecContext_multi p sc1 tr1 (Data d)) \<and>
         (Name col \<noteq> ''multiple statement execution'' \<longrightarrow>
            ExecContext p ctx query args sc tr = (sc1, tr1, Ret (Inr ResultNoRows)))"
proof -
  from exec_success[OF assms(3)] have r: "rest sc \<noteq> None" by auto
  have nd: "\<not> isDml (StatementTypeID (Data d))"
    using assms(4) not_isDml_Multi by simp
  have m: "isMultiStmt (Data d) = Ret (Name col = ''multiple statement execution'')"
    using assms(4,5) by (simp add: isMultiStmt_def)
  show ?thesis
    using assms(1-3) r nd m by (auto simp: ExecContext_def)
qed


lemma exec_stub_conn:
  "\<exists>c. fst (exec stub_pkg TODO query False False [] (stub_conn (Some (stub_response d), None) children) tr)
     = \<lparr>cfg = Some c, rest = Some (stub_rest (Some (stub_response d), None) children),
        SequenceCounter = 1, QueryID = respQueryID d, SQLState = respSQLState d\<rparr>"
  by (simp add: exec_def exec_send_def exec_receive_def stub_conn_def stub_rest_def stub_response_def
      stub_pkg_def TODO_def)

theorem ExecContext_sentinel_dispatch_witness:
  "snd (snd (ExecContext stub_pkg TODO ''INSERT INTO t VALUES (1),(2); INSERT INTO t VALUES (3),(4),(5)'' []
     (stub_conn (Some multi_response, None) two_children) []))
     = Ret (Inr (snowflakeResult 5 (- 1) ''q0'')) \<and>
   snd (snd (ExecContext stub_pkg TODO ''SELECT 1'' []
     (stub_conn (Some (stub_response (stub_data\<lparr>StatementTypeID := 0x1000,
         RowType := [\<lparr>Name = ''1''\<rparr>], RowSet := [[Some ''1'']]\<rparr>)), None) no_children) []))
     = Ret (Inr ResultNoRows)"
proof -
  let ?q = "''INSERT INTO t VALUES (1),(2); INSERT INTO t VALUES (3),(4),(5)''"
  let ?sc = "stub_conn (Some multi_response, None) two_children"
  let ?d2 = "stub_response (stub_data\<lparr>StatementTypeID := 0x1000,
         RowType := [\<lparr>Name = ''1''\<rparr>], RowSet := [[Some ''1'']]\<rparr>)"
  let ?sc2 = "stub_conn (Some ?d2, None) no_children"
  have e: "exec stub_pkg TODO ?q False False [] ?sc []
           = (fst (exec stub_pkg TODO ?q False False [] ?sc []),
              fst (snd (exec stub_pkg TODO ?q False False [] ?sc [])),
              Ret (Some multi_response, None))"
    unfolding multi_response_def by (rule triple_eqI) (rule exec_stub)
  have a: "StatementTypeID (Data multi_response) = statementTypeIDMulti"
    and b: "RowType (Data multi_response) = \<lparr>Name = ''multiple statement execution''\<rparr> # []"
    by (simp_all add: multi_response_def stub_response_def stub_data_def statementTypeIDMulti_def)
  from ExecContext_sentinel_dispatch[OF isInternal_TODO isAsyncMode_TODO e a b]
  have m: "ExecContext stub_pkg TODO ?q [] ?sc [] =
      ExecContext_multi stub_pkg (fst (exec stub_pkg TODO ?q False False [] ?sc []))
        (fst (snd (exec stub_pkg TODO ?q False False [] ?sc []))) (Data multi_response)"
    by simp
  obtain c where sc1: "fst (exec stub_pkg TODO ?q False False [] ?sc [])
     = \<lparr>cfg = Some c, rest = Some (stub_rest (Some multi_response, None) two_children),
        SequenceCounter = 1, QueryID = respQueryID (Data multi_response),
        SQLState = respSQLState (Data multi_response)\<rparr>"
    using exec_stub_conn[of ?q "stub_data\<lparr>StatementTypeID := 0x1000,
       RowType := [\<lparr>Name = ''multiple statement execution''\<rparr>],
       ResultIDs := ''id1,id2'', ResultTypes := ''12544,12544''\<rparr>" two_children "[]"]
    by (auto simp: multi_response_def stub_response_def)
  have r1: "snd (snd (ExecContext stub_pkg TODO ?q [] ?sc [])) = Ret (Inr (snowflakeResult 5 (- 1) ''q0''))"
    unfolding m sc1
    by (simp add: ExecContext_multi_def getQueryResult_def stub_rest_def two_children_def
        multi_response_def stub_response_def stub_data_def getChildResults_def
        insert_response_def isDml_def statementTypeIDDml_def statementTypeIDMultiTableInsert_def
        updateRows_def ParseInt_2 ParseInt_3)
  have e2: "exec stub_pkg TODO ''SELECT 1'' False False [] ?sc2 []
           = (fst (exec stub_pkg TODO ''SELECT 1'' False False [] ?sc2 []),
              fst (snd (exec stub_pkg TODO ''SELECT 1'' False False [] ?sc2 [])),
              Ret (Some ?d2, None))"
    by (rule triple_eqI) (rule exec_stub)
  have a2: "StatementTypeID (Data ?d2) = statementTypeIDMulti"
    and b2: "RowType (Data ?d2) = \<lparr>Name = ''1''\<rparr> # []"
    by (simp_all add: stub_response_def stub_data_def statementTypeIDMulti_def)
  from ExecContext_sentinel_dispatch[OF isInternal_TODO isAsyncMode_TODO e2 a2 b2]
  have r2: "snd (snd (ExecContext stub_pkg TODO ''SELECT 1'' [] ?sc2 [])) = Ret (Inr ResultNoRows)"
    by simp
  from r1 r2 show ?thesis by simp
qed

section \<open>C3: the affected rows of a DML statement\<close>








section \<open>C4: the sequence numbers\<close>

lemma sequence_ids_append: "sequence_ids (xs @ ys) = sequence_ids xs @ sequence_ids ys"
  by (induction xs rule: sequence_ids.induct) simp_all

lemma exec_counter:
  assumes "exec p ctx query noResult isInt args sc tr = (sc1, tr1, out)"
  shows "SequenceCounter sc1 = SequenceCounter sc + 1 \<and>
         (tr1 = tr \<or> (\<exists>h req. tr1 = tr @ [PostQuery h req] \<and> SequenceID req = SequenceCounter sc + 1))"
  using assms
  by (auto simp: exec_def exec_send_def exec_receive_def Let_def
      split: sum.splits option.splits if_splits prod.splits)

lemma exec_call_ids:
  assumes "exec p ctx query noResult isInt args sc tr = (sc1, tr1, out)"
  shows "sequence_ids (drop (length tr) tr1) = [] \<or>
         sequence_ids (drop (length tr) tr1) = [SequenceCounter sc + 1]"
  using exec_counter[OF assms] by auto

lemma unat_succ: fixes c :: "64 word" assumes "unat c + 1 < 2 ^ 64" shows "unat (c + 1) = unat c + 1"
proof -
  have "unat (c + 1) = (unat c + unat (1 :: 64 word)) mod 2 ^ 64"
    by (simp add: unat_word_ariths)
  with assms show ?thesis by simp
qed

lemma less_succ: fixes c :: "64 word" assumes "unat c + 1 < 2 ^ 64" shows "c < c + 1"
  using unat_succ[OF assms] by (simp add: word_less_nat_alt)

lemma numbered_ids_sorted:
  fixes c :: "64 word"
  assumes "\<forall>k < length ids. ids ! k = [] \<or> ids ! k = [c + of_nat (k + 1)]"
    and "unat c + length ids < 2 ^ 64"
  shows "sorted_wrt (<) (concat ids) \<and> (\<forall>i \<in> set (concat ids). c < i)"
  using assms
proof (induction ids arbitrary: c)
  case Nil
  then show ?case by simp
next
  case (Cons x xs)
  from Cons.prems(2) have nw: "unat c + 1 < 2 ^ 64" by simp
  have u: "unat (c + 1) = unat c + 1" by (rule unat_succ[OF nw])
  have lt: "c < c + 1" by (rule less_succ[OF nw])
  have a: "\<forall>k < length xs. xs ! k = [] \<or> xs ! k = [(c + 1) + of_nat (k + 1)]"
  proof (intro allI impI)
    fix k assume "k < length xs"
    with Cons.prems(1)[rule_format, of "Suc k"]
    show "xs ! k = [] \<or> xs ! k = [(c + 1) + of_nat (k + 1)]"
      by (simp add: add.assoc add.commute add.left_commute)
  qed
  have b: "unat (c + 1) + length xs < 2 ^ 64" using Cons.prems(2) u by simp
  from Cons.IH[OF a b] have ih: "sorted_wrt (<) (concat xs)" "\<forall>i \<in> set (concat xs). c + 1 < i"
    by simp_all
  from Cons.prems(1)[rule_format, of 0] have x: "x = [] \<or> x = [c + 1]" by simp
  from ih(2) lt have gt: "\<forall>i \<in> set (concat xs). c < i" by fastforce
  from x show ?case
  proof
    assume "x = []"
    with ih gt show ?thesis by simp
  next
    assume "x = [c + 1]"
    with ih gt lt show ?thesis by simp
  qed
qed

text \<open>
  C4, amended. In every sequence of \<^verbatim>\<open>exec\<close> calls on one connection, each call adds 1 to
  the connection's 64-bit counter, whatever it returns, and the \<open>k\<close>-th call either posts
  no request (its bindings or the JSON encoding failed, or the connection is closed) or
  posts one request numbered with the counter's start value plus \<open>k\<close> (in \<^verbatim>\<open>uint64\<close>
  arithmetic); the numbers of the requests in the events are these, in call order. As
  long as the counter does not pass \<open>2 ^ 64 - 1\<close> during the sequence, the numbers of the
  posted requests strictly increase and none is repeated.
\<close>

theorem exec_calls_sequence_numbers:
  assumes "exec_calls p calls sc tr = (ids, sc', tr')"
  shows "length ids = length calls \<and>
         SequenceCounter sc' = SequenceCounter sc + of_nat (length calls) \<and>
         (\<forall>k < length calls. ids ! k = [] \<or> ids ! k = [SequenceCounter sc + of_nat (k + 1)]) \<and>
         (\<exists>new. tr' = tr @ new \<and> sequence_ids new = concat ids) \<and>
         (unat (SequenceCounter sc) + length calls < 2 ^ 64 \<longrightarrow>
            sorted_wrt (<) (concat ids) \<and> distinct (concat ids))"
proof -
  have main: "length ids = length calls \<and>
         SequenceCounter sc' = SequenceCounter sc + of_nat (length calls) \<and>
         (\<forall>k < length calls. ids ! k = [] \<or> ids ! k = [SequenceCounter sc + of_nat (k + 1)]) \<and>
         (\<exists>new. tr' = tr @ new \<and> sequence_ids new = concat ids)"
    using assms
  proof (induction calls arbitrary: sc tr ids)
    case Nil
    then show ?case by simp
  next
    case (Cons call calls)
    obtain ctx query noResult isInt args where call: "call = (ctx, query, noResult, isInt, args)"
      by (cases call) auto
    obtain sc1 tr1 out where e: "exec p ctx query noResult isInt args sc tr = (sc1, tr1, out)"
      by (cases "exec p ctx query noResult isInt args sc tr") auto
    obtain ids1 sc2 tr2 where r: "exec_calls p calls sc1 tr1 = (ids1, sc2, tr2)"
      by (cases "exec_calls p calls sc1 tr1") auto
    from Cons.prems call e r have res: "ids = sequence_ids (drop (length tr) tr1) # ids1" "sc' = sc2" "tr' = tr2"
      by simp_all
    from r res have r': "exec_calls p calls sc1 tr1 = (ids1, sc', tr')" by simp
    note ih = Cons.IH[OF r']
    from exec_counter[OF e] have c1: "SequenceCounter sc1 = SequenceCounter sc + 1"
      and t1: "tr1 = tr \<or> (\<exists>h req. tr1 = tr @ [PostQuery h req] \<and> SequenceID req = SequenceCounter sc + 1)"
      by simp_all
    let ?x = "sequence_ids (drop (length tr) tr1)"
    from exec_call_ids[OF e] have x: "?x = [] \<or> ?x = [SequenceCounter sc + 1]" .
    have l: "length ids = length (call # calls)" using res ih by simp
    have cnt: "SequenceCounter sc' = SequenceCounter sc + of_nat (length (call # calls))"
      using res ih c1 by (simp add: add.assoc add.commute add.left_commute)
    have nth: "\<forall>k < length (call # calls). ids ! k = [] \<or> ids ! k = [SequenceCounter sc + of_nat (k + 1)]"
    proof (intro allI impI)
      fix k assume k: "k < length (call # calls)"
      show "ids ! k = [] \<or> ids ! k = [SequenceCounter sc + of_nat (k + 1)]"
      proof (cases k)
        case 0
        with x res show ?thesis by simp
      next
        case (Suc k')
        with k have "k' < length calls" by simp
        with ih have "ids1 ! k' = [] \<or> ids1 ! k' = [SequenceCounter sc1 + of_nat (k' + 1)]" by blast
        with Suc res c1 show ?thesis by (simp add: add.assoc add.commute add.left_commute)
      qed
    qed
    from t1 obtain new1 where n1: "tr1 = tr @ new1" by auto
    from ih obtain new2 where n2: "tr' = tr1 @ new2" "sequence_ids new2 = concat ids1" by blast
    have "tr' = tr @ (new1 @ new2) \<and> sequence_ids (new1 @ new2) = concat ids"
      using n1 n2 res by (simp add: sequence_ids_append)
    then have tr: "\<exists>new. tr' = tr @ new \<and> sequence_ids new = concat ids" by blast
    from l cnt nth tr show ?case by blast
  qed
  have "sorted_wrt (<) (concat ids) \<and> distinct (concat ids)"
    if nw: "unat (SequenceCounter sc) + length calls < 2 ^ 64"
  proof -
    from main nw have "\<forall>k < length ids. ids ! k = [] \<or> ids ! k = [SequenceCounter sc + of_nat (k + 1)]"
      and "unat (SequenceCounter sc) + length ids < 2 ^ 64" by simp_all
    from numbered_ids_sorted[OF this] have s: "sorted_wrt (<) (concat ids)" by simp
    then show ?thesis by (simp add: strict_sorted_iff)
  qed
  with main show ?thesis by blast
qed

text \<open>
  C4 as stated fails where the \<^verbatim>\<open>uint64\<close> counter wraps: on a connection whose counter is
  \<open>2 ^ 64 - 2\<close>, two calls post the numbers \<open>2 ^ 64 - 1\<close> and then \<open>0\<close>, which is not an
  increase.
\<close>

theorem exec_calls_wrap_counterexample:
  "fst (exec_calls stub_pkg [(TODO, ''SELECT 1'', False, False, []), (TODO, ''SELECT 2'', False, False, [])]
     ((stub_conn (Some (stub_response stub_data), None) no_children)\<lparr>SequenceCounter := 0xFFFFFFFFFFFFFFFE\<rparr>) [])
     = [[0xFFFFFFFFFFFFFFFF], [0]] \<and>
   \<not> ((0xFFFFFFFFFFFFFFFF :: uint64) < 0)"
  by (simp add: exec_def exec_send_def exec_receive_def stub_conn_def stub_rest_def stub_response_def
      stub_pkg_def TODO_def Let_def)


theorem exec_calls_sequence_numbers_witness:
  "fst (exec_calls stub_pkg
      [(TODO, ''SELECT 1'', False, False, []), (TODO, ''SELECT ?'', False, False, [IFloat64 0]),
       (TODO, ''SELECT 2'', False, False, [])]
      (stub_conn (Some (stub_response stub_data), None) no_children) []) = [[1], [], [3]] \<and>
   SequenceCounter (fst (snd (exec_calls stub_pkg
      [(TODO, ''SELECT 1'', False, False, []), (TODO, ''SELECT ?'', False, False, [IFloat64 0]),
       (TODO, ''SELECT 2'', False, False, [])]
      (stub_conn (Some (stub_response stub_data), None) no_children) []))) = 3 \<and>
   sorted_wrt (<) (concat (fst (exec_calls stub_pkg
      [(TODO, ''SELECT 1'', False, False, []), (TODO, ''SELECT ?'', False, False, [IFloat64 0]),
       (TODO, ''SELECT 2'', False, False, [])]
      (stub_conn (Some (stub_response stub_data), None) no_children) []))) \<and>
   distinct (concat (fst (exec_calls stub_pkg
      [(TODO, ''SELECT 1'', False, False, []), (TODO, ''SELECT ?'', False, False, [IFloat64 0]),
       (TODO, ''SELECT 2'', False, False, [])]
      (stub_conn (Some (stub_response stub_data), None) no_children) [])))"
proof -
  let ?calls = "[(TODO, ''SELECT 1'', False, False, []), (TODO, ''SELECT ?'', False, False, [IFloat64 0]),
       (TODO, ''SELECT 2'', False, False, [])]"
  let ?sc = "stub_conn (Some (stub_response stub_data), None) no_children"
  let ?r = "exec_calls stub_pkg ?calls ?sc []"
  have a: "?r = (fst ?r, fst (snd ?r), snd (snd ?r))"
    by (simp only: prod.collapse)
  have nw: "unat (SequenceCounter ?sc) + length ?calls < 2 ^ 64"
    by (simp add: stub_conn_def)
  have c0: "SequenceCounter ?sc + of_nat (length ?calls) = 3"
    by (simp add: stub_conn_def)
  from exec_calls_sequence_numbers[OF a] nw
  have t: "SequenceCounter (fst (snd ?r)) = SequenceCounter ?sc + of_nat (length ?calls)"
    "sorted_wrt (<) (concat (fst ?r))" "distinct (concat (fst ?r))"
    by blast+
  have ids: "fst ?r = [[1], [], [3]]"
    by (simp add: exec_def exec_send_def exec_receive_def stub_conn_def stub_rest_def stub_response_def
      stub_pkg_def TODO_def Let_def)
  from t(1) c0 have c: "SequenceCounter (fst (snd ?r)) = 3" by (simp only:)
  from ids c t(2,3) show ?thesis by (intro conjI)
qed

section \<open>C5: exec on a failed response\<close>

lemma exec_send_stub:
  "snd (snd (exec_send stub_pkg TODO query False False [] (stub_conn answer children) tr)) = Inr answer"
  by (simp add: exec_send_def stub_conn_def stub_rest_def stub_pkg_def TODO_def)

text \<open>
  C5 as stated fails on a response with an empty status code: \<^verbatim>\<open>strconv.Atoi("")\<close> is an
  error, so the code "cannot be parsed as an integer", yet \<^verbatim>\<open>exec\<close> does not parse an empty
  code at all; it takes \<open>-1\<close> for the number and, the success flag being false, returns
  a \<^verbatim>\<open>SnowflakeError\<close> and no response.
\<close>

theorem exec_empty_code_counterexample:
  "Atoi (Code ((stub_response stub_data)\<lparr>Success := False, Message := ''failed''\<rparr>))
     = Inl (NumError ''Atoi'' [] ErrSyntax) \<and>
   snd (snd (exec stub_pkg TODO ''SELECT 1'' False False []
     (stub_conn (Some ((stub_response stub_data)\<lparr>Success := False, Message := ''failed''\<rparr>), None) no_children) []))
     = Ret (None, Some (SnowflakeErr \<lparr>Number = - 1, errSQLState = ''00000'', errMessage = ''failed'',
                                      errQueryID = ''q0''\<rparr>))"
  by (simp add: Atoi_empty exec_def exec_send_def exec_receive_def stub_conn_def stub_rest_def
      stub_response_def stub_data_def stub_pkg_def TODO_def)

text \<open>
  C5, amended. Let \<^verbatim>\<open>FuncPostQuery\<close> answer a call of \<^verbatim>\<open>exec\<close> with the response \<open>d\<close> and
  no error. If the status code of \<open>d\<close> is not empty and \<^verbatim>\<open>strconv.Atoi\<close> fails on it,
  \<^verbatim>\<open>exec\<close> returns \<open>d\<close> together with the parse error, whatever the success flag. If the
  success flag is false and the status code is empty or parses, \<^verbatim>\<open>exec\<close> returns no
  response and a \<^verbatim>\<open>SnowflakeError\<close> built from the number (the parsed code, or \<open>-1\<close> for
  the empty code), the SQL state, the message and the query id of \<open>d\<close>.
\<close>

theorem exec_failure_response:
  assumes "exec_send p ctx query noResult isInt args sc tr = (sc1, tr1, Inr (Some d, None))"
  shows "(\<forall>e. Code d \<noteq> [] \<and> Atoi (Code d) = Inl e \<longrightarrow>
            exec p ctx query noResult isInt args sc tr = (sc1, tr1, Ret (Some d, Some e))) \<and>
         (\<forall>code. \<not> Success d \<and> (if Code d = [] then code = - 1 else Atoi (Code d) = Inr code) \<longrightarrow>
            exec p ctx query noResult isInt args sc tr =
              (sc1, tr1, Ret (None, Some (SnowflakeErr
                 \<lparr>Number = code, errSQLState = respSQLState (Data d), errMessage = Message d,
                  errQueryID = respQueryID (Data d)\<rparr>))))"
  using assms by (auto simp: exec_def exec_receive_def)

lemma Atoi_390100: "Atoi ''390100'' = Inr 390100"
  by (simp add: Atoi_def parse_signed_def ParseUint_def digit_val_def)

lemma Atoi_abc: "Atoi ''abc'' = Inl (NumError ''Atoi'' ''abc'' ErrSyntax)"
  by (simp add: Atoi_def parse_signed_def ParseUint_def digit_val_def)

theorem exec_failure_response_witness:
  "snd (snd (exec stub_pkg TODO ''SELECT 1'' False False []
     (stub_conn (Some ((stub_response stub_data)\<lparr>Success := False, Code := ''390100'', Message := ''failed''\<rparr>), None)
        no_children) []))
     = Ret (None, Some (SnowflakeErr \<lparr>Number = 390100, errSQLState = ''00000'', errMessage = ''failed'',
                                      errQueryID = ''q0''\<rparr>)) \<and>
   snd (snd (exec stub_pkg TODO ''SELECT 1'' False False []
     (stub_conn (Some ((stub_response stub_data)\<lparr>Code := ''abc''\<rparr>), None) no_children) []))
     = Ret (Some ((stub_response stub_data)\<lparr>Code := ''abc''\<rparr>), Some (NumError ''Atoi'' ''abc'' ErrSyntax))"
proof -
  let ?d1 = "(stub_response stub_data)\<lparr>Success := False, Code := ''390100'', Message := ''failed''\<rparr>"
  let ?d2 = "(stub_response stub_data)\<lparr>Code := ''abc''\<rparr>"
  let ?s1 = "stub_conn (Some ?d1, None) no_children"
  let ?s2 = "stub_conn (Some ?d2, None) no_children"
  have e1: "exec_send stub_pkg TODO ''SELECT 1'' False False [] ?s1 []
            = (fst (exec_send stub_pkg TODO ''SELECT 1'' False False [] ?s1 []),
               fst (snd (exec_send stub_pkg TODO ''SELECT 1'' False False [] ?s1 [])), Inr (Some ?d1, None))"
    by (rule triple_eqI) (rule exec_send_stub)
  have e2: "exec_send stub_pkg TODO ''SELECT 1'' False False [] ?s2 []
            = (fst (exec_send stub_pkg TODO ''SELECT 1'' False False [] ?s2 []),
               fst (snd (exec_send stub_pkg TODO ''SELECT 1'' False False [] ?s2 [])), Inr (Some ?d2, None))"
    by (rule triple_eqI) (rule exec_send_stub)
  have h1: "\<not> Success ?d1 \<and> (if Code ?d1 = [] then (390100::int) = - 1 else Atoi (Code ?d1) = Inr 390100)"
    by (simp add: stub_response_def Atoi_390100)
  have h2: "Code ?d2 \<noteq> [] \<and> Atoi (Code ?d2) = Inl (NumError ''Atoi'' ''abc'' ErrSyntax)"
    by (simp add: stub_response_def Atoi_abc)
  from exec_failure_response[OF e1] h1
  have r1: "exec stub_pkg TODO ''SELECT 1'' False False [] ?s1 [] =
      (fst (exec_send stub_pkg TODO ''SELECT 1'' False False [] ?s1 []),
       fst (snd (exec_send stub_pkg TODO ''SELECT 1'' False False [] ?s1 [])),
       Ret (None, Some (SnowflakeErr \<lparr>Number = 390100, errSQLState = respSQLState (Data ?d1),
          errMessage = Message ?d1, errQueryID = respQueryID (Data ?d1)\<rparr>)))"
    by blast
  from exec_failure_response[OF e2] h2
  have r2: "exec stub_pkg TODO ''SELECT 1'' False False [] ?s2 [] =
      (fst (exec_send stub_pkg TODO ''SELECT 1'' False False [] ?s2 []),
       fst (snd (exec_send stub_pkg TODO ''SELECT 1'' False False [] ?s2 [])),
       Ret (Some ?d2, Some (NumError ''Atoi'' ''abc'' ErrSyntax)))"
    by blast
  from r1 r2 show ?thesis
    by (simp add: stub_response_def stub_data_def)
qed

section \<open>C6: BeginTx\<close>

text \<open>
  C6 as stated fails in its last part: with \<^verbatim>\<open>ReadOnly\<close> false and the default isolation
  level, on an open connection whose server rejects the statement, \<^verbatim>\<open>BeginTx\<close> returns the
  error of \<^verbatim>\<open>exec\<close> and no transaction handle.
\<close>

theorem BeginTx_failed_exec_counterexample:
  "snd (snd (BeginTx stub_pkg TODO \<lparr>Isolation = 0, ReadOnly = False\<rparr>
     (stub_conn (Some ((stub_response stub_data)\<lparr>Success := False, Message := ''failed''\<rparr>), None) no_children) []))
     = Ret (Inl (SnowflakeErr \<lparr>Number = - 1, errSQLState = ''00000'', errMessage = ''failed'',
                                errQueryID = ''q0''\<rparr>))"
  by (simp add: BeginTx_def LevelDefault_def exec_def exec_send_def exec_receive_def stub_conn_def stub_rest_def
      stub_response_def stub_data_def stub_pkg_def TODO_def)

lemma exec_not_nil_nil:
  "exec p ctx query noResult isInt args sc tr \<noteq> (sc1, tr1, Ret (None, None))"
  by (auto simp: exec_def exec_send_def exec_receive_def Let_def
      split: sum.splits option.splits if_splits prod.splits)

text \<open>
  C6, amended. \<^verbatim>\<open>BeginTx\<close> with \<^verbatim>\<open>ReadOnly\<close> true, and \<^verbatim>\<open>BeginTx\<close> with an isolation level
  other than the default, returns a \<^verbatim>\<open>SnowflakeError\<close> with the SQL state
  \<^verbatim>\<open>SQLStateFeatureNotSupported\<close> and leaves the connection and the list of events as they
  were: no request is issued. Otherwise, a connection without transport gives
  \<^verbatim>\<open>driver.ErrBadConn\<close>, again without a request; an open one runs \<^verbatim>\<open>exec\<close> with the
  statement \<^verbatim>\<open>BEGIN\<close>: when \<^verbatim>\<open>exec\<close> returns no error, one request with the SQL text
  \<^verbatim>\<open>BEGIN\<close> has been posted and the transaction handle is returned, and when \<^verbatim>\<open>exec\<close>
  returns an error, \<^verbatim>\<open>BeginTx\<close> returns that error and no handle.
\<close>

theorem BeginTx_cases:
  "(ReadOnly opts \<longrightarrow>
      BeginTx p ctx opts sc tr = (sc, tr, Ret (Inl (SnowflakeErr
        \<lparr>Number = ErrNoReadOnlyTransaction p, errSQLState = SQLStateFeatureNotSupported p,
         errMessage = errMsgNoReadOnlyTransaction p, errQueryID = []\<rparr>)))) \<and>
   (\<not> ReadOnly opts \<and> Isolation opts \<noteq> LevelDefault \<longrightarrow>
      BeginTx p ctx opts sc tr = (sc, tr, Ret (Inl (SnowflakeErr
        \<lparr>Number = ErrNoDefaultTransactionIsolationLevel p, errSQLState = SQLStateFeatureNotSupported p,
         errMessage = errMsgNoDefaultTransactionIsolationLevel p, errQueryID = []\<rparr>)))) \<and>
   (\<not> ReadOnly opts \<and> Isolation opts = LevelDefault \<and> rest sc = None \<longrightarrow>
      BeginTx p ctx opts sc tr = (sc, tr, Ret (Inl ErrBadConn))) \<and>
   (\<not> ReadOnly opts \<and> Isolation opts = LevelDefault \<and> rest sc \<noteq> None \<longrightarrow>
      (\<forall>sc1 tr1 d. exec p ctx ''BEGIN'' False False [] sc tr = (sc1, tr1, Ret (d, None)) \<longrightarrow>
         BeginTx p ctx opts sc tr = (sc1, tr1, Ret (Inr snowflakeTx)) \<and>
         (\<exists>h req. tr1 = tr @ [PostQuery h req] \<and> SQLText req = ''BEGIN'')) \<and>
      (\<forall>sc1 tr1 d err. exec p ctx ''BEGIN'' False False [] sc tr = (sc1, tr1, Ret (d, Some err)) \<longrightarrow>
         BeginTx p ctx opts sc tr = (sc1, tr1, Ret (Inl err))))"
proof -
  have a: "\<exists>h req. tr1 = tr @ [PostQuery h req] \<and> SQLText req = ''BEGIN''"
    if "exec p ctx ''BEGIN'' False False [] sc tr = (sc1, tr1, Ret (d, None))" for sc1 tr1 d
  proof (cases d)
    case None
    with that exec_not_nil_nil show ?thesis by blast
  next
    case (Some r)
    with that exec_success show ?thesis by blast
  qed
  show ?thesis
    using a by (auto simp: BeginTx_def)
qed


theorem BeginTx_cases_witness:
  "BeginTx stub_pkg TODO \<lparr>Isolation = 0, ReadOnly = True\<rparr> (stub_conn (Some (stub_response stub_data), None) no_children) []
     = (stub_conn (Some (stub_response stub_data), None) no_children, [],
        Ret (Inl (SnowflakeErr \<lparr>Number = 268000, errSQLState = ''0A000'',
          errMessage = ''no readonly mode is supported'', errQueryID = []\<rparr>))) \<and>
   BeginTx stub_pkg TODO \<lparr>Isolation = 6, ReadOnly = False\<rparr> (stub_conn (Some (stub_response stub_data), None) no_children) []
     = (stub_conn (Some (stub_response stub_data), None) no_children, [],
        Ret (Inl (SnowflakeErr \<lparr>Number = 268001, errSQLState = ''0A000'',
          errMessage = ''no default isolation transaction level is supported'', errQueryID = []\<rparr>))) \<and>
   BeginTx stub_pkg TODO \<lparr>Isolation = 0, ReadOnly = False\<rparr>
       ((stub_conn (Some (stub_response stub_data), None) no_children)\<lparr>rest := None\<rparr>) []
     = ((stub_conn (Some (stub_response stub_data), None) no_children)\<lparr>rest := None\<rparr>, [], Ret (Inl ErrBadConn)) \<and>
   snd (snd (BeginTx stub_pkg TODO \<lparr>Isolation = 0, ReadOnly = False\<rparr>
       (stub_conn (Some (stub_response stub_data), None) no_children) [])) = Ret (Inr snowflakeTx) \<and>
   (\<exists>h req. fst (snd (BeginTx stub_pkg TODO \<lparr>Isolation = 0, ReadOnly = False\<rparr>
       (stub_conn (Some (stub_response stub_data), None) no_children) [])) = [PostQuery h req] \<and>
       SQLText req = ''BEGIN'')"
proof -
  let ?sc = "stub_conn (Some (stub_response stub_data), None) no_children"
  let ?ok = "\<lparr>Isolation = 0, ReadOnly = False\<rparr>"
  have r1: "BeginTx stub_pkg TODO \<lparr>Isolation = 0, ReadOnly = True\<rparr> ?sc []
     = (?sc, [], Ret (Inl (SnowflakeErr \<lparr>Number = 268000, errSQLState = ''0A000'',
          errMessage = ''no readonly mode is supported'', errQueryID = []\<rparr>)))"
    using BeginTx_cases[of "\<lparr>Isolation = 0, ReadOnly = True\<rparr>" stub_pkg TODO ?sc "[]"]
    by (simp add: stub_pkg_def)
  have r2: "BeginTx stub_pkg TODO \<lparr>Isolation = 6, ReadOnly = False\<rparr> ?sc []
     = (?sc, [], Ret (Inl (SnowflakeErr \<lparr>Number = 268001, errSQLState = ''0A000'',
          errMessage = ''no default isolation transaction level is supported'', errQueryID = []\<rparr>)))"
    using BeginTx_cases[of "\<lparr>Isolation = 6, ReadOnly = False\<rparr>" stub_pkg TODO ?sc "[]"]
    by (simp add: stub_pkg_def LevelDefault_def)
  have r3: "BeginTx stub_pkg TODO ?ok (?sc\<lparr>rest := None\<rparr>) [] = (?sc\<lparr>rest := None\<rparr>, [], Ret (Inl ErrBadConn))"
    using BeginTx_cases[of ?ok stub_pkg TODO "?sc\<lparr>rest := None\<rparr>" "[]"]
    by (simp add: LevelDefault_def)
  have e: "exec stub_pkg TODO ''BEGIN'' False False [] ?sc []
           = (fst (exec stub_pkg TODO ''BEGIN'' False False [] ?sc []),
              fst (snd (exec stub_pkg TODO ''BEGIN'' False False [] ?sc [])),
              Ret (Some (stub_response stub_data), None))"
    by (rule triple_eqI) (rule exec_stub)
  have open_conn: "\<not> ReadOnly ?ok \<and> Isolation ?ok = LevelDefault \<and> rest ?sc \<noteq> None"
    by (simp add: stub_conn_def LevelDefault_def)
  from BeginTx_cases[of ?ok stub_pkg TODO ?sc "[]"] open_conn e
  have r4: "BeginTx stub_pkg TODO ?ok ?sc [] =
              (fst (exec stub_pkg TODO ''BEGIN'' False False [] ?sc []),
               fst (snd (exec stub_pkg TODO ''BEGIN'' False False [] ?sc [])), Ret (Inr snowflakeTx)) \<and>
            (\<exists>h req. fst (snd (exec stub_pkg TODO ''BEGIN'' False False [] ?sc [])) = [] @ [PostQuery h req] \<and>
               SQLText req = ''BEGIN'')"
    by blast
  from r1 r2 r3 r4 show ?thesis by simp
qed

section \<open>C7: the session after a successful exec\<close>

lemma populate_fields:
  "Database (populateSessionParameters p ps c) = Database c \<and>
   Schema (populateSessionParameters p ps c) = Schema c \<and>
   Role (populateSessionParameters p ps c) = Role c \<and>
   Warehouse (populateSessionParameters p ps c) = Warehouse c"
  by (induction ps arbitrary: c) simp_all

lemma find_app: "find P (xs @ ys) = (case find P xs of None \<Rightarrow> find P ys | Some x \<Rightarrow> Some x)"
  by (induction xs) simp_all

lemma populate_Params:
  "Params (populateSessionParameters p ps c) k =
     (case find (\<lambda>q. ToLower (unicodeToLower p) (paramName q) = k) (rev ps) of
        None \<Rightarrow> Params c k
      | Some q \<Rightarrow> Some (param_text p (paramValue q)))"
proof (induction ps arbitrary: c)
  case Nil
  then show ?case by simp
next
  case (Cons a ps)
  show ?case
    by (simp add: Cons.IH find_app split: option.splits)
qed

text \<open>
  C7. When \<^verbatim>\<open>exec\<close> returns a response and no error (the response was successful), the
  connection it leaves has the database, schema, role and warehouse of the response's
  final-name fields and the response's query id and SQL state; and its parameter map
  holds, under every key \<open>k\<close>, the text of the last returned parameter whose name
  \<^verbatim>\<open>strings.ToLower\<close> maps to \<open>k\<close>, or what it held before when there is none. The text
  of an \<^verbatim>\<open>int64\<close> is \<^verbatim>\<open>FormatInt\<close>'s, of a \<^verbatim>\<open>float64\<close> \<^verbatim>\<open>FormatFloat\<close>'s, of a \<^verbatim>\<open>bool\<close>
  \<^verbatim>\<open>FormatBool\<close>'s, and a string is copied unchanged.
\<close>

theorem exec_success_updates_session:
  assumes "exec p ctx query noResult isInt args sc tr = (sc1, tr1, Ret (Some d, None))"
  shows "\<exists>c c1. cfg sc = Some c \<and> cfg sc1 = Some c1 \<and>
           Database c1 = FinalDatabaseName (Data d) \<and> Schema c1 = FinalSchemaName (Data d) \<and>
           Role c1 = FinalRoleName (Data d) \<and> Warehouse c1 = FinalWarehouseName (Data d) \<and>
           QueryID sc1 = respQueryID (Data d) \<and> SQLState sc1 = respSQLState (Data d) \<and>
           (\<forall>k. Params c1 k =
              (case find (\<lambda>q. ToLower (unicodeToLower p) (paramName q) = k) (rev (Parameters (Data d))) of
                 None \<Rightarrow> Params c k
               | Some q \<Rightarrow> Some (param_text p (paramValue q)))) \<and>
           (\<forall>v. param_text p (IInt64 v) = FormatInt v) \<and>
           (\<forall>v. param_text p (IFloat64 v) = FormatFloat p v) \<and>
           (\<forall>v. param_text p (IBool v) = FormatBool v) \<and>
           (\<forall>v. param_text p (IString v) = v)"
proof -
  from exec_success[OF assms] obtain c where
    c: "cfg sc = Some c"
       "cfg sc1 = Some (populateSessionParameters p (Parameters (Data d))
                      (c\<lparr>Database := FinalDatabaseName (Data d), Schema := FinalSchemaName (Data d),
                         Role := FinalRoleName (Data d), Warehouse := FinalWarehouseName (Data d)\<rparr>))"
       "QueryID sc1 = respQueryID (Data d)" "SQLState sc1 = respSQLState (Data d)"
    by blast
  show ?thesis
    using c by (simp add: populate_fields populate_Params param_text_def split: option.splits)
qed


theorem exec_success_updates_session_witness:
  "\<exists>c1. cfg (fst (exec stub_pkg TODO ''USE DATABASE DB2'' False False []
             (stub_conn (Some (stub_response (stub_data\<lparr>Parameters :=
                [\<lparr>paramName = ''TIMEZONE'', paramValue = IString ''UTC''\<rparr>,
                 \<lparr>paramName = ''AutoCommit'', paramValue = IBool True\<rparr>,
                 \<lparr>paramName = ''Rows'', paramValue = IInt64 12\<rparr>]\<rparr>)), None) no_children) [])) = Some c1 \<and>
         Database c1 = ''DB2'' \<and> Schema c1 = ''S2'' \<and> Role c1 = ''R2'' \<and> Warehouse c1 = ''WH2'' \<and>
         Params c1 ''timezone'' = Some ''UTC'' \<and> Params c1 ''autocommit'' = Some ''true'' \<and>
         Params c1 ''rows'' = Some ''12'' \<and>
         Params c1 ''client_session_keep_alive'' = Some ''true''"
proof -
  let ?d = "stub_response (stub_data\<lparr>Parameters :=
                [\<lparr>paramName = ''TIMEZONE'', paramValue = IString ''UTC''\<rparr>,
                 \<lparr>paramName = ''AutoCommit'', paramValue = IBool True\<rparr>,
                 \<lparr>paramName = ''Rows'', paramValue = IInt64 12\<rparr>]\<rparr>)"
  let ?sc = "stub_conn (Some ?d, None) no_children"
  let ?q = "''USE DATABASE DB2''"
  have e: "exec stub_pkg TODO ?q False False [] ?sc []
           = (fst (exec stub_pkg TODO ?q False False [] ?sc []),
              fst (snd (exec stub_pkg TODO ?q False False [] ?sc [])),
              Ret (Some ?d, None))"
    by (rule triple_eqI) (rule exec_stub)
  from exec_success_updates_session[OF e] obtain c c1 where
    c: "cfg ?sc = Some c" and c1: "cfg (fst (exec stub_pkg TODO ?q False False [] ?sc [])) = Some c1"
    and f: "Database c1 = FinalDatabaseName (Data ?d)" "Schema c1 = FinalSchemaName (Data ?d)"
       "Role c1 = FinalRoleName (Data ?d)" "Warehouse c1 = FinalWarehouseName (Data ?d)"
    and ps: "\<And>k. Params c1 k =
              (case find (\<lambda>q. ToLower (unicodeToLower stub_pkg) (paramName q) = k) (rev (Parameters (Data ?d))) of
                 None \<Rightarrow> Params c k
               | Some q \<Rightarrow> Some (param_text stub_pkg (paramValue q)))"
    by blast
  from c have ceq: "c = stub_cfg" by (simp add: stub_conn_def)
  have lows: "ToLower (unicodeToLower stub_pkg) ''TIMEZONE'' = ''timezone''"
     "ToLower (unicodeToLower stub_pkg) ''AutoCommit'' = ''autocommit''"
     "ToLower (unicodeToLower stub_pkg) ''Rows'' = ''rows''"
    by (simp_all add: ToLower_def isASCII_def lower_byte_def)
  have fmt: "FormatInt 12 = ''12''"
    by (simp add: FormatInt_def Itoa_def digits10.simps digit_char_def)
  have p1: "Params c1 ''timezone'' = Some ''UTC''"
    by (simp add: ps lows stub_response_def stub_data_def param_text_def)
  have p2: "Params c1 ''autocommit'' = Some ''true''"
    by (simp add: ps lows stub_response_def stub_data_def param_text_def FormatBool_def)
  have p3: "Params c1 ''rows'' = Some ''12''"
    by (simp add: ps lows stub_response_def stub_data_def param_text_def fmt)
  have p4: "Params c1 ''client_session_keep_alive'' = Some ''true''"
    by (simp add: ps lows ceq stub_cfg_def stub_response_def stub_data_def)
  from c1 f p1 p2 p3 p4 show ?thesis
    by (simp add: stub_response_def stub_data_def)
qed

section \<open>C8: the bind slots\<close>

lemma of_char_digit_char: "d < 10 \<Longrightarrow> (of_char (digit_char d) :: nat) = 48 + d"
proof -
  assume "d < 10"
  then have "d \<in> {0,1,2,3,4,5,6,7,8,9}" by auto
  then show ?thesis by (auto simp: digit_char_def)
qed

lemma undigits_digits10:
  "foldl (\<lambda>a c. 10 * a + ((of_char c :: nat) - 48)) 0 (digits10 n) = n"
proof (induction n rule: digits10.induct)
  case (1 n)
  show ?case
  proof (cases "n < 10")
    case True
    then show ?thesis by (simp add: digits10.simps[of n] of_char_digit_char)
  next
    case False
    with 1 have "foldl (\<lambda>a c. 10 * a + ((of_char c :: nat) - 48)) 0 (digits10 (n div 10)) = n div 10"
      by simp
    with False show ?thesis
      by (simp add: digits10.simps[of n] of_char_digit_char)
  qed
qed

lemma digits10_inj: "digits10 n = digits10 m \<Longrightarrow> n = m"
  by (metis undigits_digits10)

lemma Itoa_inj_nonneg: "0 \<le> i \<Longrightarrow> 0 \<le> j \<Longrightarrow> Itoa i = Itoa j \<Longrightarrow> i = j"
  by (auto simp: Itoa_def dest: digits10_inj)

lemma exec_bindings_slots:
  assumes "exec_bindings p vs tsmode idx bs = Inr m" and "0 \<le> idx"
  shows "(\<forall>j < length (bind_entries p vs tsmode). m (Itoa (idx + int j)) = Some (bind_entries p vs tsmode ! j)) \<and>
         (\<forall>s. s \<notin> Itoa ` {idx ..< idx + int (length (bind_entries p vs tsmode))} \<longrightarrow> m s = bs s)"
  using assms
proof (induction vs arbitrary: tsmode idx bs)
  case Nil
  then show ?case by simp
next
  case (Cons v vs)
  let ?t = "goTypeToSnowflake p v tsmode"
  show ?case
  proof (cases "?t = ''CHANGE_TYPE''")
    case True
    with Cons.prems obtain mode' where d: "dataTypeMode p v = Inr mode'"
      and r: "exec_bindings p vs mode' idx bs = Inr m"
      by (auto simp: Let_def split: sum.splits)
    from Cons.IH[OF r Cons.prems(2)] True d show ?thesis by simp
  next
    case False
    let ?e = "bind_entry p v tsmode"
    let ?es = "bind_entries p vs tsmode"
    from False Cons.prems(1) have r: "exec_bindings p vs tsmode (idx + 1) (bs(Itoa idx \<mapsto> ?e)) = Inr m"
      by (auto simp: Let_def bind_entry_def split: sum.splits prod.splits if_splits)
    from Cons.prems(2) have i1: "0 \<le> idx + 1" by simp
    note ih = Cons.IH[OF r i1]
    have notin: "Itoa idx \<notin> Itoa ` {idx + 1 ..< idx + 1 + int (length ?es)}"
    proof
      assume "Itoa idx \<in> Itoa ` {idx + 1 ..< idx + 1 + int (length ?es)}"
      then obtain k where k: "idx + 1 \<le> k" "Itoa idx = Itoa k" by auto
      with Cons.prems(2) Itoa_inj_nonneg[of idx k] show False by simp
    qed
    with ih have head: "m (Itoa idx) = Some ?e" by simp
    have es: "bind_entries p (v # vs) tsmode = ?e # ?es" using False by simp
    have a: "\<forall>j < length (?e # ?es). m (Itoa (idx + int j)) = Some ((?e # ?es) ! j)"
    proof (intro allI impI)
      fix j assume j: "j < length (?e # ?es)"
      show "m (Itoa (idx + int j)) = Some ((?e # ?es) ! j)"
      proof (cases j)
        case 0
        with head show ?thesis by simp
      next
        case (Suc j')
        with j have "j' < length ?es" by simp
        with ih have "m (Itoa (idx + 1 + int j')) = Some (?es ! j')" by blast
        with Suc show ?thesis by (simp add: add.commute add.left_commute)
      qed
    qed
    have b: "\<forall>s. s \<notin> Itoa ` {idx ..< idx + int (length (?e # ?es))} \<longrightarrow> m s = bs s"
    proof (intro allI impI)
      fix s assume s: "s \<notin> Itoa ` {idx ..< idx + int (length (?e # ?es))}"
      have sub: "{idx + 1 ..< idx + 1 + int (length ?es)} \<subseteq> {idx ..< idx + int (length (?e # ?es))}"
        by auto
      have "idx \<in> {idx ..< idx + int (length (?e # ?es))}" by simp
      with s have ne: "s \<noteq> Itoa idx" by blast
      from s sub have "s \<notin> Itoa ` {idx + 1 ..< idx + 1 + int (length ?es)}" by blast
      with ih have "m s = (bs(Itoa idx \<mapsto> ?e)) s" by blast
      with ne show "m s = bs s" by simp
    qed
    from a b es show ?thesis by simp
  qed
qed

lemma exec_send_Bindings:
  assumes "exec_send p ctx query noResult isInt args sc tr = (sc1, tr1, Inr ans)"
  shows "\<exists>h req. tr1 = tr @ [PostQuery h req] \<and>
           exec_bindings p args ''TIMESTAMP_NTZ'' 1 Map.empty = Inr (Bindings req)"
  using assms
  by (auto simp: exec_send_def Let_def split: sum.splits option.splits)

text \<open>
  C8. For every list of bind values with which \<^verbatim>\<open>exec\<close> reaches the post, the request it
  posts carries exactly the slots \<^verbatim>\<open>"1"\<close> to \<^verbatim>\<open>"N"\<close>, \<open>N\<close> distinct keys for the \<open>N\<close> entries
  of \<open>bind_entries\<close>, and the slot \<open>j + 1\<close> holds the \<open>j\<close>-th entry: the values whose
  inferred type is \<^verbatim>\<open>CHANGE_TYPE\<close> take no slot and set the timestamp mode for the values
  after them, an array is the single entry of \<^verbatim>\<open>arrayToString\<close>, any other value its type
  with the text of \<^verbatim>\<open>valueToString\<close>, in input order. (\<^verbatim>\<open>goTypeToSnowflake\<close>,
  \<^verbatim>\<open>dataTypeMode\<close>, \<^verbatim>\<open>arrayToString\<close> and \<^verbatim>\<open>valueToString\<close> are parameters.)
\<close>

theorem exec_bind_slots:
  assumes "exec_send p ctx query noResult isInt args sc tr = (sc1, tr1, Inr ans)"
  shows "\<exists>h req. tr1 = tr @ [PostQuery h req] \<and>
           dom (Bindings req) = Itoa ` {1 .. int (length (bind_entries p args ''TIMESTAMP_NTZ''))} \<and>
           card (dom (Bindings req)) = length (bind_entries p args ''TIMESTAMP_NTZ'') \<and>
           (\<forall>j < length (bind_entries p args ''TIMESTAMP_NTZ'').
              Bindings req (Itoa (int j + 1)) = Some (bind_entries p args ''TIMESTAMP_NTZ'' ! j))"
proof -
  let ?es = "bind_entries p args ''TIMESTAMP_NTZ''"
  from exec_send_Bindings[OF assms] obtain h req where
    tr1: "tr1 = tr @ [PostQuery h req]"
    and b: "exec_bindings p args ''TIMESTAMP_NTZ'' 1 Map.empty = Inr (Bindings req)"
    by blast
  from exec_bindings_slots[OF b] have
    s1: "\<forall>j < length ?es. Bindings req (Itoa (1 + int j)) = Some (?es ! j)"
    and s2: "\<forall>s. s \<notin> Itoa ` {1 ..< 1 + int (length ?es)} \<longrightarrow> Bindings req s = None"
    by simp_all
  have rng: "{1 ..< 1 + int (length ?es)} = {1 .. int (length ?es)}" by auto
  have d: "dom (Bindings req) = Itoa ` {1 .. int (length ?es)}"
  proof
    show "dom (Bindings req) \<subseteq> Itoa ` {1 .. int (length ?es)}"
      using s2 rng by auto
    show "Itoa ` {1 .. int (length ?es)} \<subseteq> dom (Bindings req)"
    proof
      fix s assume "s \<in> Itoa ` {1 .. int (length ?es)}"
      then obtain k where k: "1 \<le> k" "k \<le> int (length ?es)" "s = Itoa k" by auto
      then have "nat (k - 1) < length ?es" "k = 1 + int (nat (k - 1))" by auto
      with s1 k(3) show "s \<in> dom (Bindings req)" by (metis domI)
    qed
  qed
  have inj: "inj_on Itoa {1 .. int (length ?es)}"
  proof (rule inj_onI)
    fix x y assume "x \<in> {1 .. int (length ?es)}" "y \<in> {1 .. int (length ?es)}" "Itoa x = Itoa y"
    then show "x = y" using Itoa_inj_nonneg[of x y] by simp
  qed
  have c: "card (dom (Bindings req)) = length ?es"
    using d card_image[OF inj] by simp
  from s1 have s1': "\<forall>j < length ?es. Bindings req (Itoa (int j + 1)) = Some (?es ! j)"
    by (simp add: add.commute)
  from tr1 d c s1' show ?thesis by blast
qed

lemma FormatInt_7: "FormatInt 7 = ''7''"
  by (simp add: FormatInt_def Itoa_def digits10.simps digit_char_def)

lemma Itoa_small: "Itoa 1 = ''1''" "Itoa 2 = ''2''" "Itoa 3 = ''3''" "Itoa 4 = ''4''"
  by (simp_all add: Itoa_def digits10.simps digit_char_def)

lemma stub_bind_entries:
  "bind_entries stub_pkg [IInt64 7, IOther, IBytes [2], IOther, IInts [1, 2]] ''TIMESTAMP_NTZ'' =
     [\<lparr>Type = ''FIXED'', Value = IString ''7''\<rparr>,
      \<lparr>Type = ''TIMESTAMP_NTZ'', Value = IString ''1600000000''\<rparr>,
      \<lparr>Type = ''TIMESTAMP_LTZ'', Value = IString ''1600000000''\<rparr>,
      \<lparr>Type = ''ARRAY'', Value = IStrings [''1'', ''2'']\<rparr>]"
  by (simp add: bind_entry_def stub_pkg_def FormatInt_7 Itoa_small)

theorem exec_bind_slots_witness:
  "\<exists>h req. fst (snd (exec_send stub_pkg TODO ''INSERT INTO t VALUES (?, ?, ?, ?)'' False False
              [IInt64 7, IOther, IBytes [2], IOther, IInts [1, 2]]
              (stub_conn (Some (stub_response stub_data), None) no_children) [])) = [PostQuery h req] \<and>
     Bindings req ''1'' = Some \<lparr>Type = ''FIXED'', Value = IString ''7''\<rparr> \<and>
     Bindings req ''2'' = Some \<lparr>Type = ''TIMESTAMP_NTZ'', Value = IString ''1600000000''\<rparr> \<and>
     Bindings req ''3'' = Some \<lparr>Type = ''TIMESTAMP_LTZ'', Value = IString ''1600000000''\<rparr> \<and>
     Bindings req ''4'' = Some \<lparr>Type = ''ARRAY'', Value = IStrings [''1'', ''2'']\<rparr> \<and>
     card (dom (Bindings req)) = 4"
proof -
  let ?args = "[IInt64 7, IOther, IBytes [2], IOther, IInts [1, 2]]"
  let ?q = "''INSERT INTO t VALUES (?, ?, ?, ?)''"
  let ?sc = "stub_conn (Some (stub_response stub_data), None) no_children"
  have s: "snd (snd (exec_send stub_pkg TODO ?q False False ?args ?sc []))
           = Inr (Some (stub_response stub_data), None)"
    by (simp add: exec_send_def stub_conn_def stub_rest_def stub_pkg_def TODO_def)
  have e: "exec_send stub_pkg TODO ?q False False ?args ?sc []
           = (fst (exec_send stub_pkg TODO ?q False False ?args ?sc []),
              fst (snd (exec_send stub_pkg TODO ?q False False ?args ?sc [])),
              Inr (Some (stub_response stub_data), None))"
    by (rule triple_eqI) (rule s)
  let ?l = "[\<lparr>Type = ''FIXED'', Value = IString ''7''\<rparr>,
      \<lparr>Type = ''TIMESTAMP_NTZ'', Value = IString ''1600000000''\<rparr>,
      \<lparr>Type = ''TIMESTAMP_LTZ'', Value = IString ''1600000000''\<rparr>,
      \<lparr>Type = ''ARRAY'', Value = IStrings [''1'', ''2'']\<rparr>]"
  from exec_bind_slots[OF e, unfolded stub_bind_entries] obtain h req where
    t: "fst (snd (exec_send stub_pkg TODO ?q False False ?args ?sc [])) = [] @ [PostQuery h req]"
    and c: "card (dom (Bindings req)) = length ?l"
    and sl: "\<forall>j < length ?l. Bindings req (Itoa (int j + 1)) = Some (?l ! j)"
    by (elim exE conjE)
  have bs: "Bindings req ''1'' = Some \<lparr>Type = ''FIXED'', Value = IString ''7''\<rparr>"
     "Bindings req ''2'' = Some \<lparr>Type = ''TIMESTAMP_NTZ'', Value = IString ''1600000000''\<rparr>"
     "Bindings req ''3'' = Some \<lparr>Type = ''TIMESTAMP_LTZ'', Value = IString ''1600000000''\<rparr>"
     "Bindings req ''4'' = Some \<lparr>Type = ''ARRAY'', Value = IStrings [''1'', ''2'']\<rparr>"
    using sl[rule_format, of 0] sl[rule_format, of 1] sl[rule_format, of 2] sl[rule_format, of 3]
    by (simp_all add: Itoa_small)
  from c have c4: "card (dom (Bindings req)) = 4" by simp
  from t have t': "fst (snd (exec_send stub_pkg TODO ?q False False ?args ?sc [])) = [PostQuery h req]"
    by simp
  from t' bs c4 show ?thesis by blast
qed

section \<open>C9: Close\<close>





section \<open>C10: the multi-statement test on a response without columns\<close>

text \<open>
  C10. When a successful response carries the multi-statement identifier \<open>0x1000\<close> and an
  empty column list, \<^verbatim>\<open>isMultiStmt\<close> reads \<^verbatim>\<open>data.RowType[0]\<close> of an empty slice: the index
  is out of range, and \<^verbatim>\<open>ExecContext\<close> and \<^verbatim>\<open>QueryContext\<close>, which both reach the test
  (\<open>0x1000\<close> is not a DML identifier), end in that panic instead of a result.
\<close>

theorem isMultiStmt_empty_schema_panics:
  assumes "StatementTypeID (Data d) = statementTypeIDMulti" and "RowType (Data d) = []"
    and "isInternal ctx = Inr internal" and "isAsyncMode ctx = Inr noResult"
    and "exec p ctx query noResult internal args sc tr = (sc1, tr1, Ret (Some d, None))"
  shows "isMultiStmt (Data d) = Panic IndexOutOfRange \<and>
         ExecContext p ctx query args sc tr = (sc1, tr1, Panic IndexOutOfRange) \<and>
         QueryContext p ctx query args sc tr = (sc1, tr1, Panic IndexOutOfRange)"
proof -
  from exec_success[OF assms(5)] have r: "rest sc \<noteq> None" by auto
  have m: "isMultiStmt (Data d) = Panic IndexOutOfRange"
    using assms(1,2) by (simp add: isMultiStmt_def)
  have e: "ExecContext p ctx query args sc tr = (sc1, tr1, Panic IndexOutOfRange)"
    using assms r m not_isDml_Multi by (simp add: ExecContext_def)
  have q: "QueryContext p ctx query args sc tr = (sc1, tr1, Panic IndexOutOfRange)"
    using assms r m by (simp add: QueryContext_def)
  from m e q show ?thesis by simp
qed

theorem isMultiStmt_empty_schema_panics_witness:
  "isMultiStmt (Data (stub_response (stub_data\<lparr>StatementTypeID := 0x1000\<rparr>))) = Panic IndexOutOfRange \<and>
   snd (snd (ExecContext stub_pkg TODO ''SELECT 1; SELECT 2'' []
     (stub_conn (Some (stub_response (stub_data\<lparr>StatementTypeID := 0x1000\<rparr>)), None) no_children) []))
     = Panic IndexOutOfRange \<and>
   snd (snd (QueryContext stub_pkg TODO ''SELECT 1; SELECT 2'' []
     (stub_conn (Some (stub_response (stub_data\<lparr>StatementTypeID := 0x1000\<rparr>)), None) no_children) []))
     = Panic IndexOutOfRange"
proof -
  let ?d = "stub_response (stub_data\<lparr>StatementTypeID := 0x1000\<rparr>)"
  let ?sc = "stub_conn (Some ?d, None) no_children"
  have a: "StatementTypeID (Data ?d) = statementTypeIDMulti"
    by (simp add: stub_response_def stub_data_def statementTypeIDMulti_def)
  have b: "RowType (Data ?d) = []"
    by (simp add: stub_response_def stub_data_def)
  have e: "exec stub_pkg TODO ''SELECT 1; SELECT 2'' False False [] ?sc []
           = (fst (exec stub_pkg TODO ''SELECT 1; SELECT 2'' False False [] ?sc []),
              fst (snd (exec stub_pkg TODO ''SELECT 1; SELECT 2'' False False [] ?sc [])),
              Ret (Some ?d, None))"
    by (rule triple_eqI) (rule exec_stub)
  from isMultiStmt_empty_schema_panics[OF a b isInternal_TODO isAsyncMode_TODO e]
  show ?thesis by simp
qed

end
